theory Spec2Isabelle
  imports Complex_Main
begin

section \<open>Values of the Python program\<close>

text \<open>
  Errors of the request handlers in \<^verbatim>\<open>app/api/v1/payments.py\<close>. \<open>HTTP c d\<close> is
  \<^verbatim>\<open>raise HTTPException(status_code=c, detail=d)\<close>; the other constructors are Python
  exceptions that no handler catches (the framework answers 500). \<open>DataError\<close> is a value
  of a non-string JSON type that reaches a VARCHAR column or query parameter,
  \<open>ProviderError\<close> an exception of the Razorpay SDK and \<open>CollaboratorError\<close> an exception
  of receipt rendering or of the task queue.
\<close>

datatype error =
    HTTP nat string
  | AttributeError
  | KeyError
  | TypeError
  | ValueError
  | OverflowError
  | JSONDecodeError
  | DataError
  | ProviderError
  | CollaboratorError

fun bind_e :: "error + 'a \<Rightarrow> ('a \<Rightarrow> error + 'b) \<Rightarrow> error + 'b" where
  "bind_e (Inl e) f = Inl e"
| "bind_e (Inr v) f = f v"

subsection \<open>Parsed JSON\<close>

text \<open>
  The result of \<^verbatim>\<open>request.json()\<close> and of the SDK calls. An object is the association
  list of a Python dict (keys distinct after parsing); numbers are the integers, which
  is all the handlers distinguish (no field they read is used as a number).
\<close>

datatype json =
    JNull
  | JBool bool
  | JNum int
  | JStr string
  | JArr "json list"
  | JObj "(string \<times> json) list"

text \<open>Python truthiness of a parsed JSON value.\<close>

fun truthy :: "json \<Rightarrow> bool" where
  "truthy JNull = False"
| "truthy (JBool b) = b"
| "truthy (JNum n) = (n \<noteq> 0)"
| "truthy (JStr s) = (s \<noteq> [])"
| "truthy (JArr xs) = (xs \<noteq> [])"
| "truthy (JObj kv) = (kv \<noteq> [])"

text \<open>\<^verbatim>\<open>x.get(k, d)\<close>: only a dict has the method.\<close>

fun py_get :: "json \<Rightarrow> string \<Rightarrow> json \<Rightarrow> error + json" where
  "py_get (JObj kv) k d = Inr (case map_of kv k of None \<Rightarrow> d | Some v \<Rightarrow> v)"
| "py_get _ k d = Inl AttributeError"

text \<open>\<^verbatim>\<open>x[k]\<close> on a value expected to be a dict.\<close>

fun py_item :: "json \<Rightarrow> string \<Rightarrow> error + json" where
  "py_item (JObj kv) k = (case map_of kv k of None \<Rightarrow> Inl KeyError | Some v \<Rightarrow> Inr v)"
| "py_item _ k = Inl TypeError"

text \<open>\<^verbatim>\<open>a or b\<close> on values, and with a right operand that may raise (evaluated only
  when the left one is falsy).\<close>

definition py_or :: "json \<Rightarrow> json \<Rightarrow> json" where
  "py_or a b = (if truthy a then a else b)"

definition or_else :: "error + json \<Rightarrow> error + json \<Rightarrow> error + json" where
  "or_else a b = (case a of Inl e \<Rightarrow> Inl e | Inr v \<Rightarrow> if truthy v then Inr v else b)"

text \<open>
  A JSON value bound to a VARCHAR query parameter or assigned to a VARCHAR column:
  a string goes through, \<^verbatim>\<open>None\<close> is NULL, any other type makes the statement fail.
\<close>

fun sql_param :: "json \<Rightarrow> error + string" where
  "sql_param (JStr s) = Inr s"
| "sql_param _ = Inl DataError"

fun sql_column :: "json \<Rightarrow> error + string option" where
  "sql_column JNull = Inr None"
| "sql_column (JStr s) = Inr (Some s)"
| "sql_column _ = Inl DataError"

subsection \<open>Python floats\<close>

text \<open>
  A \<^verbatim>\<open>float\<close> is an IEEE 754 binary64 value: a finite one is the rational it denotes
  (the sign of zero is not kept), and the product of two of them is the exact product
  rounded to the nearest binary64 value, ties to even. \<open>to_double\<close> is that rounding:
  53 significant bits, exponents down to the subnormal \<open>2 ^ - 1074\<close>, and an infinity
  from \<open>2 ^ 1024\<close> on.
\<close>

datatype pyfloat = Fin rat | PosInf | NegInf | NaN

definition pow2 :: "int \<Rightarrow> rat" where
  "pow2 e = (if 0 \<le> e then 2 ^ nat e else 1 / 2 ^ nat (- e))"

fun bits :: "nat \<Rightarrow> nat" where
  "bits n = (if n = 0 then 0 else Suc (bits (n div 2)))"

declare bits.simps [simp del]

text \<open>\<open>ilog2 a\<close> is the integer \<open>e\<close> with \<open>2 ^ e \<le> a < 2 ^ (e + 1)\<close>, for \<open>a > 0\<close>.\<close>

definition ilog2 :: "rat \<Rightarrow> int" where
  "ilog2 a =
     (let (n, d) = quotient_of a;
          k = int (bits (nat n)) - int (bits (nat d))
      in if pow2 k \<le> a then k else k - 1)"

definition round_half_even :: "rat \<Rightarrow> int" where
  "round_half_even x =
     (let f = \<lfloor>x\<rfloor>; r = x - of_int f
      in if r < 1 / 2 then f
         else if 1 / 2 < r then f + 1
         else if even f then f else f + 1)"

definition to_double :: "rat \<Rightarrow> pyfloat" where
  "to_double x =
     (if x = 0 then Fin 0
      else let a = \<bar>x\<bar>;
               p = max (ilog2 a - 52) (- 1074);
               m = round_half_even (a / pow2 p);
               v = of_int m * pow2 p
           in if pow2 1024 \<le> v then (if 0 < x then PosInf else NegInf)
              else Fin (sgn x * v))"

text \<open>\<^verbatim>\<open>float(x) * 100\<close>.\<close>

fun times_100 :: "pyfloat \<Rightarrow> pyfloat" where
  "times_100 (Fin a) = to_double (a * 100)"
| "times_100 PosInf = PosInf"
| "times_100 NegInf = NegInf"
| "times_100 NaN = NaN"

text \<open>\<^verbatim>\<open>int(round(x))\<close>: \<^verbatim>\<open>round\<close> of a float without a second argument rounds half to
  even and returns an int; it raises on an infinity and on a NaN.\<close>

fun int_round :: "pyfloat \<Rightarrow> error + int" where
  "int_round (Fin a) = Inr (round_half_even a)"
| "int_round PosInf = Inl OverflowError"
| "int_round NegInf = Inl OverflowError"
| "int_round NaN = Inl ValueError"

text \<open>\<^verbatim>\<open>int(round(float(amount) * 100))\<close>, the expression of \<^verbatim>\<open>rupees_to_paisa\<close> that
  order creation and refund write out in place.\<close>

definition rupees_to_paisa :: "pyfloat \<Rightarrow> error + int" where
  "rupees_to_paisa amount_rupees = int_round (times_100 amount_rupees)"

text \<open>\<^verbatim>\<open>x <= 0\<close> on a float.\<close>

fun le_zero :: "pyfloat \<Rightarrow> bool" where
  "le_zero (Fin a) = (a \<le> 0)"
| "le_zero PosInf = False"
| "le_zero NegInf = True"
| "le_zero NaN = False"

section \<open>Data model\<close>

datatype uuid = UUID nat

text \<open>\<^verbatim>\<open>app/models/payment.py\<close>: the constants of \<^verbatim>\<open>PaymentStatus\<close> and
  \<^verbatim>\<open>PaymentProvider\<close>, and the columns of \<^verbatim>\<open>Payment\<close> (\<^verbatim>\<open>customer_id\<close> comes with the
  migration \<^verbatim>\<open>a1b2c3d4e5f6\<close>; \<^verbatim>\<open>created_at\<close> is read by no handler). The amount is
  kept as the float the handler assigned: the rounding of the \<^verbatim>\<open>Numeric(10, 2)\<close> column
  is not modelled, and the only stored amount a handler reads back goes to the receipt.\<close>

datatype PaymentStatus = CREATED | AUTHORIZED | CAPTURED | FAILED | REFUNDED

datatype PaymentProvider = RAZORPAY | STRIPE

record Payment =
  pay_id :: uuid
  pay_tenant_id :: uuid
  pay_appointment_id :: uuid
  pay_customer_id :: uuid
  pay_provider :: PaymentProvider
  pay_provider_order_id :: string
  pay_provider_payment_id :: "string option"
  pay_amount :: pyfloat
  pay_currency :: string
  pay_status :: PaymentStatus

text \<open>The fields the handlers pass to \<^verbatim>\<open>PaymentEvent(...)\<close>.\<close>

record PaymentEvent =
  ev_tenant_id :: uuid
  ev_provider :: PaymentProvider
  ev_event_type :: string
  ev_provider_event_id :: "string option"
  ev_provider_payment_id :: "string option"
  ev_provider_order_id :: "string option"
  ev_payload :: json

text \<open>Of \<^verbatim>\<open>Appointment\<close> and \<^verbatim>\<open>Customer\<close> the handlers use these fields;
  \<^verbatim>\<open>ApptPayStatus\<close> is the appointment's \<^verbatim>\<open>PaymentStatus\<close>.\<close>

datatype ApptPayStatus = UNPAID | PAID | APPT_FAILED | APPT_REFUNDED

record Appointment =
  appt_id :: uuid
  appt_tenant_id :: uuid
  appt_customer_id :: uuid
  appt_amount_due :: "pyfloat option"
  appt_currency :: string
  appt_payment_status :: ApptPayStatus

record Customer =
  cust_id :: uuid
  cust_tenant_id :: uuid
  cust_full_name :: string
  cust_email :: string
  cust_phone :: string

text \<open>The committed rows of the four tables. A handler works on a session and the
  session is closed after the request (\<^verbatim>\<open>get_db\<close> in \<^verbatim>\<open>app/core/deps.py\<close>): what was
  not committed is gone, so a handler maps the committed rows to the committed rows.\<close>

record db =
  payments :: "Payment list"
  payment_events :: "PaymentEvent list"
  appointments :: "Appointment list"
  customers :: "Customer list"

text \<open>\<^verbatim>\<open>db.scalar(select(T).where(P))\<close> is the first row that satisfies \<open>P\<close>; the handlers
  then assign to attributes of that row, here found again by its position.\<close>

fun first_index :: "('a \<Rightarrow> bool) \<Rightarrow> 'a list \<Rightarrow> nat option" where
  "first_index P [] = None"
| "first_index P (x # xs) =
     (if P x then Some 0 else map_option Suc (first_index P xs))"

section \<open>Collaborators\<close>

text \<open>
  What the handlers call and this repository does not define: the settings, the
  standard library's HMAC-SHA256 hex digest (key, then message) and UUID parser and
  printer, the Razorpay SDK client, receipt rendering and the task queue's
  \<^verbatim>\<open>send_booking_email.delay\<close>. Each call that can raise returns a sum. The handler
  passes the receipt to \<^verbatim>\<open>delay\<close> under the keyword \<^verbatim>\<open>attachment\<close>, which the task in
  \<^verbatim>\<open>app/workers/tasks.py\<close> does not declare (its parameter is \<^verbatim>\<open>attachment_bytes\<close>);
  whether \<^verbatim>\<open>delay\<close> raises for that is the task queue's configuration, so the call is
  one that may raise.
\<close>

record collaborators =
  RAZORPAY_WEBHOOK_SECRET :: string
  RAZORPAY_KEY_SECRET :: string
  RAZORPAY_KEY_ID :: string
  hmac_sha256_hexdigest :: "string \<Rightarrow> string \<Rightarrow> string"
  uuid_parse :: "string \<Rightarrow> uuid option"
  uuid_str :: "uuid \<Rightarrow> string"
  order_create :: "json \<Rightarrow> error + json"
  payment_fetch :: "string \<Rightarrow> error + json"
  payment_refund :: "string \<Rightarrow> json \<Rightarrow> error + json"
  generate_receipt_pdf :: "string \<Rightarrow> string \<Rightarrow> pyfloat \<Rightarrow> string \<Rightarrow> error + string"
  send_booking_email_delay :: "string \<Rightarrow> string \<Rightarrow> string \<Rightarrow> string \<Rightarrow> error + unit"

text \<open>What a handler did outside the database, in order.\<close>

datatype effect =
    OrderCreate json
  | PaymentFetch string
  | PaymentRefund string json
  | ReceiptRendered string
  | EmailEnqueued string string

section \<open>Signature verification (\<^verbatim>\<open>app/integration/razorpay.py\<close>)\<close>

text \<open>\<^verbatim>\<open>hmac.compare_digest\<close> on two \<^verbatim>\<open>str\<close> raises \<^verbatim>\<open>TypeError\<close> unless both are ASCII.
  A \<open>char\<close> stands for a code point below 256.\<close>

definition is_ascii :: "string \<Rightarrow> bool" where
  "is_ascii s = list_all (\<lambda>c. (of_char c :: nat) < 128) s"

definition compare_digest :: "string \<Rightarrow> string \<Rightarrow> error + bool" where
  "compare_digest a b = (if is_ascii a \<and> is_ascii b then Inr (a = b) else Inl TypeError)"

definition verify_razorpay_webhook_signature ::
  "collaborators \<Rightarrow> string \<Rightarrow> string \<Rightarrow> string \<Rightarrow> error + bool" where
  "verify_razorpay_webhook_signature C raw_body signature webhook_secret =
     compare_digest (hmac_sha256_hexdigest C webhook_secret raw_body) signature"

definition verify_razorpay_checkout_signature ::
  "collaborators \<Rightarrow> string \<Rightarrow> string \<Rightarrow> string \<Rightarrow> string \<Rightarrow> error + bool" where
  "verify_razorpay_checkout_signature C order_id payment_id signature key_secret =
     compare_digest
       (hmac_sha256_hexdigest C key_secret (order_id @ ''|'' @ payment_id)) signature"

section \<open>Request handlers (\<^verbatim>\<open>app/api/v1/payments.py\<close>)\<close>

text \<open>A handler returns its response or error, the committed rows after the request
  and what it did outside the database.\<close>

record 'r outcome =
  response :: "error + 'r"
  committed :: db
  effects :: "effect list"

definition failed :: "error \<Rightarrow> db \<Rightarrow> effect list \<Rightarrow> 'r outcome" where
  "failed e d fx = \<lparr>response = Inl e, committed = d, effects = fx\<rparr>"

text \<open>\<^verbatim>\<open>uuid.UUID(payload["tenant_id"])\<close> on the token's claims.\<close>

definition token_tenant :: "collaborators \<Rightarrow> json \<Rightarrow> error + uuid" where
  "token_tenant C payload =
     bind_e (py_item payload ''tenant_id'') (\<lambda>t.
       case t of
         JStr s \<Rightarrow> (case uuid_parse C s of None \<Rightarrow> Inl ValueError | Some u \<Rightarrow> Inr u)
       | JNull \<Rightarrow> Inl TypeError
       | _ \<Rightarrow> Inl AttributeError)"

subsection \<open>\<^verbatim>\<open>razorpay_webhook\<close>\<close>

record request =
  req_raw :: string
  req_signature :: string
  req_json :: "json option"

text \<open>What lines 116 to 151 read from the notification.\<close>

record envelope =
  env_event_type :: json
  env_event_id :: json
  env_provider_order_id :: json
  env_provider_payment_id :: json
  env_status :: json
  env_tenant_id_str :: json

text \<open>\<^verbatim>\<open>payload_json.get("payload", {}).get(k, {}).get("entity", {}).get("id")\<close>\<close>

definition entity_id :: "json \<Rightarrow> string \<Rightarrow> error + json" where
  "entity_id payload_json k =
     bind_e (py_get payload_json ''payload'' (JObj [])) (\<lambda>a.
     bind_e (py_get a k (JObj [])) (\<lambda>b.
     bind_e (py_get b ''entity'' (JObj [])) (\<lambda>c.
     py_get c ''id'' JNull)))"

text \<open>\<^verbatim>\<open>((payload_json.get("payload") or {}).get(k) or {}).get("entity") or {}\<close>\<close>

definition safe_entity :: "json \<Rightarrow> string \<Rightarrow> error + json" where
  "safe_entity payload_json k =
     bind_e (py_get payload_json ''payload'' JNull) (\<lambda>a.
     bind_e (py_get (py_or a (JObj [])) k JNull) (\<lambda>b.
     bind_e (py_get (py_or b (JObj [])) ''entity'' JNull) (\<lambda>c.
     Inr (py_or c (JObj [])))))"

definition extract_envelope :: "json \<Rightarrow> error + envelope" where
  "extract_envelope payload_json =
     bind_e (py_get payload_json ''event'' (JStr [])) (\<lambda>event_type.
     bind_e (entity_id payload_json ''payment'') (\<lambda>id1.
     bind_e (if truthy id1 then Inr id1 else entity_id payload_json ''order'') (\<lambda>id2.
     bind_e (if truthy id2 then Inr id2 else entity_id payload_json ''refund'') (\<lambda>event_id.
     bind_e (safe_entity payload_json ''payment'') (\<lambda>payment_entity.
     bind_e (safe_entity payload_json ''order'') (\<lambda>order_entity.
     bind_e (safe_entity payload_json ''refund'') (\<lambda>refund_entity.
     bind_e (or_else (py_get payment_entity ''order_id'' JNull)
            (or_else (py_get order_entity ''id'' JNull)
            (or_else (py_get refund_entity ''order_id'' JNull)
            (Inr (JStr []))))) (\<lambda>provider_order_id.
     bind_e (or_else (py_get payment_entity ''id'' JNull)
            (or_else (py_get refund_entity ''payment_id'' JNull)
            (Inr (JStr [])))) (\<lambda>provider_payment_id.
     bind_e (or_else (py_get payment_entity ''status'' JNull)
            (or_else (py_get order_entity ''status'' JNull)
            (or_else (py_get refund_entity ''status'' JNull)
            (Inr (JStr []))))) (\<lambda>status.
     bind_e (or_else (py_get payment_entity ''notes'' JNull)
            (or_else (py_get order_entity ''notes'' JNull)
            (Inr (JObj [])))) (\<lambda>notes.
     bind_e (py_get notes ''tenant_id'' JNull) (\<lambda>tenant_id_str.
     Inr \<lparr>env_event_type = event_type, env_event_id = event_id,
          env_provider_order_id = provider_order_id,
          env_provider_payment_id = provider_payment_id,
          env_status = status, env_tenant_id_str = tenant_id_str\<rparr>))))))))))))"

text \<open>Lines 153 to 162: the lookup by tenant hint and order id. Everything that raises
  inside the \<^verbatim>\<open>try\<close> leaves \<^verbatim>\<open>pay = None\<close>.\<close>

definition lookup_by_hint :: "collaborators \<Rightarrow> db \<Rightarrow> envelope \<Rightarrow> nat option" where
  "lookup_by_hint C d env =
     (if truthy (env_tenant_id_str env) \<and> truthy (env_provider_order_id env) then
        (case (env_tenant_id_str env, env_provider_order_id env) of
           (JStr ts, JStr os) \<Rightarrow>
             (case uuid_parse C ts of
                None \<Rightarrow> None
              | Some tenant_uuid \<Rightarrow>
                  first_index (\<lambda>p. pay_tenant_id p = tenant_uuid \<and>
                                    pay_provider_order_id p = os) (payments d))
         | _ \<Rightarrow> None)
      else None)"

text \<open>Lines 164 to 166: the fallback by order id alone.\<close>

definition resolve_payment :: "collaborators \<Rightarrow> db \<Rightarrow> envelope \<Rightarrow> error + nat option" where
  "resolve_payment C d env =
     (case lookup_by_hint C d env of
        Some i \<Rightarrow> Inr (Some i)
      | None \<Rightarrow>
          if truthy (env_provider_order_id env) then
            bind_e (sql_param (env_provider_order_id env)) (\<lambda>os.
              Inr (first_index (\<lambda>p. pay_provider_order_id p = os) (payments d)))
          else Inr None)"

text \<open>Lines 172 to 181: the idempotency check.\<close>

definition event_exists :: "db \<Rightarrow> uuid \<Rightarrow> json \<Rightarrow> error + bool" where
  "event_exists d tenant event_id =
     (if truthy event_id then
        bind_e (sql_param event_id) (\<lambda>e.
          Inr (list_ex (\<lambda>ev. ev_tenant_id ev = tenant \<and> ev_provider_event_id ev = Some e)
                 (payment_events d)))
      else Inr False)"

text \<open>Lines 195 to 203 and 211 to 216.\<close>

definition webhook_status :: "json \<Rightarrow> PaymentStatus \<Rightarrow> PaymentStatus" where
  "webhook_status status cur =
     (if status = JStr ''authorized'' then AUTHORIZED
      else if status = JStr ''captured'' then CAPTURED
      else if status = JStr ''failed'' then FAILED
      else if status = JStr ''refunded'' then REFUNDED
      else cur)"

definition mirror_status :: "PaymentStatus \<Rightarrow> ApptPayStatus \<Rightarrow> ApptPayStatus" where
  "mirror_status s cur =
     (if s = CAPTURED then PAID
      else if s = FAILED then APPT_FAILED
      else if s = REFUNDED then APPT_REFUNDED
      else cur)"

text \<open>Lines 183 to 218: the event, the payment, the appointment, the commit.\<close>

definition webhook_apply :: "db \<Rightarrow> nat \<Rightarrow> envelope \<Rightarrow> json \<Rightarrow> error + db" where
  "webhook_apply d i env payload_json =
     (let pay = payments d ! i in
      bind_e (sql_param (py_or (env_event_type env) (JStr ''unknown''))) (\<lambda>etype.
      bind_e (sql_column (env_event_id env)) (\<lambda>eid.
      bind_e (sql_column (py_or (env_provider_order_id env) JNull)) (\<lambda>oid.
      bind_e (sql_column (py_or (env_provider_payment_id env) JNull)) (\<lambda>pid.
        let ev = \<lparr>ev_tenant_id = pay_tenant_id pay, ev_provider = RAZORPAY,
                  ev_event_type = etype, ev_provider_event_id = eid,
                  ev_provider_payment_id = pid, ev_provider_order_id = oid,
                  ev_payload = payload_json\<rparr>;
            pay' = pay\<lparr>pay_status := webhook_status (env_status env) (pay_status pay),
                      pay_provider_payment_id :=
                        (if truthy (env_provider_payment_id env) then pid
                         else pay_provider_payment_id pay)\<rparr>;
            appts' =
              (case first_index (\<lambda>a. appt_id a = pay_appointment_id pay') (appointments d) of
                 None \<Rightarrow> appointments d
               | Some j \<Rightarrow>
                   (appointments d)[j := (appointments d ! j)
                      \<lparr>appt_payment_status :=
                         mirror_status (pay_status pay')
                           (appt_payment_status (appointments d ! j))\<rparr>])
        in Inr (d\<lparr>payments := (payments d)[i := pay'],
                  payment_events := payment_events d @ [ev],
                  appointments := appts'\<rparr>))))))"

datatype ack = Success

text \<open>Lines 153 to 219, once the envelope is read.\<close>

definition webhook_reconcile ::
  "collaborators \<Rightarrow> json \<Rightarrow> envelope \<Rightarrow> db \<Rightarrow> ack outcome" where
  "webhook_reconcile C payload_json env d =
     (case resolve_payment C d env of
        Inl e \<Rightarrow> failed e d []
      | Inr None \<Rightarrow> \<lparr>response = Inr Success, committed = d, effects = []\<rparr>
      | Inr (Some i) \<Rightarrow>
          (case event_exists d (pay_tenant_id (payments d ! i)) (env_event_id env) of
             Inl e \<Rightarrow> failed e d []
           | Inr dup \<Rightarrow>
               if dup then \<lparr>response = Inr Success, committed = d, effects = []\<rparr>
               else
                 (case webhook_apply d i env payload_json of
                    Inl e \<Rightarrow> failed e d []
                  | Inr d' \<Rightarrow>
                      \<lparr>response = Inr Success, committed = d', effects = []\<rparr>)))"

definition razorpay_webhook :: "collaborators \<Rightarrow> request \<Rightarrow> db \<Rightarrow> ack outcome" where
  "razorpay_webhook C req d =
     (if req_signature req = [] then failed (HTTP 400 ''Missing signature'') d []
      else
        (case verify_razorpay_webhook_signature C (req_raw req) (req_signature req)
                (RAZORPAY_WEBHOOK_SECRET C) of
           Inl e \<Rightarrow> failed e d []
         | Inr ok \<Rightarrow>
             if \<not> ok then failed (HTTP 400 ''Invalid webhook signature'') d []
             else
               (case req_json req of
                  None \<Rightarrow> failed JSONDecodeError d []
                | Some payload_json \<Rightarrow>
                    (case extract_envelope payload_json of
                       Inl e \<Rightarrow> failed e d []
                     | Inr env \<Rightarrow> webhook_reconcile C payload_json env d))))"

subsection \<open>\<^verbatim>\<open>create_razorpay_order\<close>\<close>

record CreateRazorpayOrderIn =
  cin_appointment_id :: uuid
  cin_amount :: pyfloat
  cin_currency :: string

record OrderOut =
  out_payment_id :: string
  out_provider :: PaymentProvider
  out_provider_order_id :: string
  out_amount :: pyfloat
  out_currency :: string
  out_razorpay_key_id :: string
  out_customer_name :: string
  out_customer_email :: string
  out_customer_phone :: string

text \<open>Lines 29 to 35: a missing or empty claim and a string that is no UUID answer 400;
  \<^verbatim>\<open>uuid.UUID\<close> of a truthy value that is no string raises \<^verbatim>\<open>AttributeError\<close>, which
  \<^verbatim>\<open>except ValueError\<close> lets through.\<close>

definition order_tenant :: "collaborators \<Rightarrow> json \<Rightarrow> error + uuid" where
  "order_tenant C payload =
     bind_e (py_get payload ''tenant_id'' JNull) (\<lambda>tenant_id_str.
       if \<not> truthy tenant_id_str then Inl (HTTP 400 ''Missing tenant_id in token'')
       else
         (case tenant_id_str of
            JStr s \<Rightarrow>
              (case uuid_parse C s of
                 None \<Rightarrow> Inl (HTTP 400 ''Invalid tenant_id format'')
               | Some u \<Rightarrow> Inr u)
          | _ \<Rightarrow> Inl AttributeError))"

text \<open>The argument of \<^verbatim>\<open>client.order.create\<close>, lines 49 to 54.\<close>

definition order_request :: "collaborators \<Rightarrow> uuid \<Rightarrow> uuid \<Rightarrow> int \<Rightarrow> string \<Rightarrow> json" where
  "order_request C tenant_id appointment_id paisa currency =
     JObj [(''amount'', JNum paisa),
           (''currency'', JStr currency),
           (''receipt'', JStr (''appt_'' @ uuid_str C appointment_id)),
           (''notes'', JObj [(''tenant_id'', JStr (uuid_str C tenant_id)),
                            (''appointment_id'', JStr (uuid_str C appointment_id))])]"

text \<open>Lines 55 to 102, after the provider has answered \<open>order\<close>. \<open>new_id\<close> is the
  \<^verbatim>\<open>uuid.uuid4()\<close> the payment row gets.\<close>

definition order_store ::
  "collaborators \<Rightarrow> CreateRazorpayOrderIn \<Rightarrow> uuid \<Rightarrow> uuid \<Rightarrow> nat \<Rightarrow> json \<Rightarrow> db \<Rightarrow>
   error + OrderOut \<times> db" where
  "order_store C body new_id tenant_id j order d =
     bind_e (py_item order ''id'') (\<lambda>oid.
     bind_e (sql_param oid) (\<lambda>provider_order_id.
       let appt = (appointments d ! j)
                    \<lparr>appt_amount_due := Some (cin_amount body),
                     appt_currency := cin_currency body,
                     appt_payment_status := UNPAID\<rparr>;
           customer = find (\<lambda>c. cust_tenant_id c = tenant_id \<and>
                                 cust_id c = appt_customer_id appt) (customers d);
           pay = \<lparr>pay_id = new_id, pay_tenant_id = tenant_id,
                  pay_appointment_id = appt_id appt,
                  pay_customer_id = appt_customer_id appt,
                  pay_provider = RAZORPAY,
                  pay_provider_order_id = provider_order_id,
                  pay_provider_payment_id = None,
                  pay_amount = cin_amount body,
                  pay_currency = cin_currency body,
                  pay_status = CREATED\<rparr>;
           ev = \<lparr>ev_tenant_id = tenant_id, ev_provider = RAZORPAY,
                 ev_event_type = ''order.created'',
                 ev_provider_event_id = Some provider_order_id,
                 ev_provider_payment_id = None,
                 ev_provider_order_id = Some provider_order_id,
                 ev_payload = order\<rparr>
       in Inr (\<lparr>out_payment_id = uuid_str C (pay_id pay),
                 out_provider = pay_provider pay,
                 out_provider_order_id = pay_provider_order_id pay,
                 out_amount = pay_amount pay,
                 out_currency = pay_currency pay,
                 out_razorpay_key_id = RAZORPAY_KEY_ID C,
                 out_customer_name = (case customer of None \<Rightarrow> [] | Some c \<Rightarrow> cust_full_name c),
                 out_customer_email = (case customer of None \<Rightarrow> [] | Some c \<Rightarrow> cust_email c),
                 out_customer_phone = (case customer of None \<Rightarrow> [] | Some c \<Rightarrow> cust_phone c)\<rparr>,
               d\<lparr>appointments := (appointments d)[j := appt],
                 payments := payments d @ [pay],
                 payment_events := payment_events d @ [ev]\<rparr>)))"

definition create_razorpay_order ::
  "collaborators \<Rightarrow> CreateRazorpayOrderIn \<Rightarrow> json \<Rightarrow> uuid \<Rightarrow> db \<Rightarrow> OrderOut outcome" where
  "create_razorpay_order C body payload new_id d =
     (case order_tenant C payload of
        Inl e \<Rightarrow> failed e d []
      | Inr tenant_id \<Rightarrow>
          (case first_index (\<lambda>a. appt_tenant_id a = tenant_id \<and>
                                  appt_id a = cin_appointment_id body) (appointments d) of
             None \<Rightarrow> failed (HTTP 404 ''Appointment not found'') d []
           | Some j \<Rightarrow>
               (case rupees_to_paisa (cin_amount body) of
                  Inl e \<Rightarrow> failed e d []
                | Inr paisa \<Rightarrow>
                    (let rq = order_request C tenant_id (cin_appointment_id body) paisa
                                (cin_currency body)
                     in case order_create C rq of
                          Inl e \<Rightarrow> failed e d [OrderCreate rq]
                        | Inr order \<Rightarrow>
                            (case order_store C body new_id tenant_id j order d of
                               Inl e \<Rightarrow> failed e d [OrderCreate rq]
                             | Inr (out, d') \<Rightarrow>
                                 \<lparr>response = Inr out, committed = d',
                                  effects = [OrderCreate rq]\<rparr>)))))"

subsection \<open>\<^verbatim>\<open>razorpay_verify\<close>\<close>

record RazorpayVerifyIn =
  vin_payment_id :: uuid
  razorpay_order_id :: string
  razorpay_payment_id :: string
  razorpay_signature :: string

text \<open>Lines 251 to 256.\<close>

definition verify_status :: "json \<Rightarrow> PaymentStatus \<Rightarrow> PaymentStatus" where
  "verify_status rp_status cur =
     (if rp_status = JStr ''captured'' then CAPTURED
      else if rp_status = JStr ''authorized'' then AUTHORIZED
      else if rp_status = JStr ''failed'' then FAILED
      else cur)"

text \<open>Lines 260 to 291: the branch of a captured payment with its appointment \<open>j\<close>.
  Receipt rendering and the enqueue come before \<^verbatim>\<open>db.add\<close> and \<^verbatim>\<open>db.commit\<close>, and
  nothing catches what they raise.\<close>

definition verify_captured ::
  "collaborators \<Rightarrow> RazorpayVerifyIn \<Rightarrow> uuid \<Rightarrow> nat \<Rightarrow> nat \<Rightarrow> Payment \<Rightarrow> json \<Rightarrow>
   effect list \<Rightarrow> db \<Rightarrow> PaymentStatus outcome" where
  "verify_captured C body tenant_id i j pay rp_payment fx d =
     (case generate_receipt_pdf C (uuid_str C (pay_id pay)) ''Customer'' (pay_amount pay)
             (pay_currency pay) of
        Inl e \<Rightarrow> failed e d fx
      | Inr pdf_bytes \<Rightarrow>
          (case send_booking_email_delay C ''customer@email.com'' ''Payment Receipt''
                  ''Your payment was successful.'' pdf_bytes of
             Inl e \<Rightarrow> failed e d (fx @ [ReceiptRendered pdf_bytes])
           | Inr _ \<Rightarrow>
               \<lparr>response = Inr (pay_status pay),
                committed = d
                  \<lparr>payments := (payments d)[i := pay],
                   appointments := (appointments d)[j := (appointments d ! j)
                                      \<lparr>appt_payment_status := PAID\<rparr>],
                   payment_events := payment_events d @
                     [\<lparr>ev_tenant_id = tenant_id, ev_provider = RAZORPAY,
                       ev_event_type = ''checkout.verified'',
                       ev_provider_event_id = None,
                       ev_provider_payment_id = Some (razorpay_payment_id body),
                       ev_provider_order_id = Some (razorpay_order_id body),
                       ev_payload = JObj [(''razorpay_payment'', rp_payment)]\<rparr>]\<rparr>,
                effects = fx @ [ReceiptRendered pdf_bytes,
                                EmailEnqueued ''customer@email.com'' pdf_bytes]\<rparr>))"

text \<open>Lines 247 to 295, after the signature has verified. Only the captured branch
  commits; on the others the session is closed with the assignments pending.\<close>

definition verify_fetch ::
  "collaborators \<Rightarrow> RazorpayVerifyIn \<Rightarrow> uuid \<Rightarrow> nat \<Rightarrow> db \<Rightarrow> PaymentStatus outcome" where
  "verify_fetch C body tenant_id i d =
     (let fx = [PaymentFetch (razorpay_payment_id body)] in
      case payment_fetch C (razorpay_payment_id body) of
        Inl e \<Rightarrow> failed e d fx
      | Inr rp_payment \<Rightarrow>
          (case py_get rp_payment ''status'' (JStr []) of
             Inl e \<Rightarrow> failed e d fx
           | Inr rp_status \<Rightarrow>
               (let pay = (payments d ! i)
                            \<lparr>pay_provider_payment_id := Some (razorpay_payment_id body),
                             pay_status := verify_status rp_status
                                             (pay_status (payments d ! i))\<rparr>
                in case first_index (\<lambda>a. appt_id a = pay_appointment_id pay \<and>
                                          appt_tenant_id a = tenant_id) (appointments d) of
                     None \<Rightarrow> \<lparr>response = Inr (pay_status pay), committed = d, effects = fx\<rparr>
                   | Some j \<Rightarrow>
                       if pay_status pay = CAPTURED
                       then verify_captured C body tenant_id i j pay rp_payment fx d
                       else \<lparr>response = Inr (pay_status pay), committed = d,
                             effects = fx\<rparr>)))"

definition razorpay_verify ::
  "collaborators \<Rightarrow> RazorpayVerifyIn \<Rightarrow> json \<Rightarrow> db \<Rightarrow> PaymentStatus outcome" where
  "razorpay_verify C body payload d =
     (case token_tenant C payload of
        Inl e \<Rightarrow> failed e d []
      | Inr tenant_id \<Rightarrow>
          (case first_index (\<lambda>p. pay_id p = vin_payment_id body \<and>
                                  pay_tenant_id p = tenant_id) (payments d) of
             None \<Rightarrow> failed (HTTP 404 ''Payment not found'') d []
           | Some i \<Rightarrow>
               if pay_provider_order_id (payments d ! i) \<noteq> razorpay_order_id body
               then failed (HTTP 400 ''Order ID mismatch'') d []
               else
                 (case verify_razorpay_checkout_signature C (razorpay_order_id body)
                         (razorpay_payment_id body) (razorpay_signature body)
                         (RAZORPAY_KEY_SECRET C) of
                    Inl e \<Rightarrow> failed e d []
                  | Inr ok \<Rightarrow>
                      if \<not> ok then failed (HTTP 400 ''Invalid signature'') d []
                      else verify_fetch C body tenant_id i d)))"

subsection \<open>\<^verbatim>\<open>razorpay_refund\<close>\<close>

record RefundIn =
  rin_payment_id :: uuid
  rin_amount :: "pyfloat option"

text \<open>Lines 320 to 324.\<close>

definition refund_payload :: "pyfloat option \<Rightarrow> error + json" where
  "refund_payload amount =
     (case amount of
        None \<Rightarrow> Inr (JObj [])
      | Some a \<Rightarrow>
          if le_zero a then Inl (HTTP 400 ''Refund amount must be > 0'')
          else bind_e (rupees_to_paisa a) (\<lambda>paisa. Inr (JObj [(''amount'', JNum paisa)])))"

text \<open>Lines 329 to 348, after the provider has answered \<open>refund\<close>.\<close>

definition refund_store :: "uuid \<Rightarrow> nat \<Rightarrow> json \<Rightarrow> db \<Rightarrow> error + db" where
  "refund_store tenant_id i refund d =
     (let pay = (payments d ! i)\<lparr>pay_status := REFUNDED\<rparr>;
          appts' =
            (case first_index (\<lambda>a. appt_id a = pay_appointment_id pay \<and>
                                   appt_tenant_id a = tenant_id) (appointments d) of
               None \<Rightarrow> appointments d
             | Some j \<Rightarrow> (appointments d)[j := (appointments d ! j)
                           \<lparr>appt_payment_status := APPT_REFUNDED\<rparr>])
      in bind_e (py_get refund ''id'' JNull) (\<lambda>rid.
         bind_e (sql_column rid) (\<lambda>eid.
           Inr (d\<lparr>payments := (payments d)[i := pay],
                   appointments := appts',
                   payment_events := payment_events d @
                     [\<lparr>ev_tenant_id = tenant_id, ev_provider = RAZORPAY,
                       ev_event_type = ''refund.created'',
                       ev_provider_event_id = eid,
                       ev_provider_payment_id = pay_provider_payment_id pay,
                       ev_provider_order_id = Some (pay_provider_order_id pay),
                       ev_payload = refund\<rparr>]\<rparr>))))"

definition razorpay_refund ::
  "collaborators \<Rightarrow> RefundIn \<Rightarrow> json \<Rightarrow> db \<Rightarrow> json outcome" where
  "razorpay_refund C body payload d =
     (case token_tenant C payload of
        Inl e \<Rightarrow> failed e d []
      | Inr tenant_id \<Rightarrow>
          (case first_index (\<lambda>p. pay_id p = rin_payment_id body \<and>
                                  pay_tenant_id p = tenant_id) (payments d) of
             None \<Rightarrow> failed (HTTP 404 ''Payment not found'') d []
           | Some i \<Rightarrow>
               if pay_provider (payments d ! i) \<noteq> RAZORPAY
               then failed (HTTP 400 ''Not a Razorpay payment'') d []
               else
                 (case pay_provider_payment_id (payments d ! i) of
                    None \<Rightarrow>
                      failed (HTTP 400 ''Payment not captured / missing provider_payment_id'') d []
                  | Some pid \<Rightarrow>
                      if pid = []
                      then failed
                             (HTTP 400 ''Payment not captured / missing provider_payment_id'') d []
                      else
                        (case refund_payload (rin_amount body) of
                           Inl e \<Rightarrow> failed e d []
                         | Inr rp \<Rightarrow>
                             (case payment_refund C pid rp of
                                Inl e \<Rightarrow> failed e d [PaymentRefund pid rp]
                              | Inr refund \<Rightarrow>
                                  (case refund_store tenant_id i refund d of
                                     Inl e \<Rightarrow> failed e d [PaymentRefund pid rp]
                                   | Inr d' \<Rightarrow>
                                       \<lparr>response = Inr refund, committed = d',
                                        effects = [PaymentRefund pid rp]\<rparr>))))))"

section \<open>Notions the claims are stated with\<close>

text \<open>
  The transition graph in the words of the specification's section 4.2:
  \<^verbatim>\<open>CREATED -> {AUTHORIZED, CAPTURED, FAILED}\<close>, \<^verbatim>\<open>AUTHORIZED -> {CAPTURED, FAILED}\<close>,
  \<^verbatim>\<open>CAPTURED -> REFUNDED\<close>. It follows the specification, not the source: no handler
  consults a graph.
\<close>

fun spec_transition :: "PaymentStatus \<Rightarrow> PaymentStatus \<Rightarrow> bool" where
  "spec_transition CREATED new = (new = AUTHORIZED \<or> new = CAPTURED \<or> new = FAILED)"
| "spec_transition AUTHORIZED new = (new = CAPTURED \<or> new = FAILED)"
| "spec_transition CAPTURED new = (new = REFUNDED)"
| "spec_transition FAILED new = False"
| "spec_transition REFUNDED new = False"

text \<open>Reachable in one or more steps of that graph.\<close>

fun spec_reachable :: "PaymentStatus \<Rightarrow> PaymentStatus \<Rightarrow> bool" where
  "spec_reachable CREATED new = (new \<noteq> CREATED)"
| "spec_reachable AUTHORIZED new = (new = CAPTURED \<or> new = FAILED \<or> new = REFUNDED)"
| "spec_reachable CAPTURED new = (new = REFUNDED)"
| "spec_reachable FAILED new = False"
| "spec_reachable REFUNDED new = False"




section \<open>The scenarios of the specification's section 8\<close>

text \<open>
  One tenant, one appointment and its customer; a provider that answers order creation
  with \<^verbatim>\<open>order_abc\<close>, reports a fetched payment as captured and accepts refunds. The
  digest is a stand-in (the theorems below hold for every digest function).
\<close>

definition scenario_collaborators :: collaborators where
  "scenario_collaborators =
     \<lparr>RAZORPAY_WEBHOOK_SECRET = ''whsec'',
      RAZORPAY_KEY_SECRET = ''keysec'',
      RAZORPAY_KEY_ID = ''rzp_test'',
      hmac_sha256_hexdigest = (\<lambda>k m. k @ '':'' @ m),
      uuid_parse = (\<lambda>s. if s = ''tenant-1'' then Some (UUID 1) else None),
      uuid_str = (\<lambda>u. if u = UUID 1 then ''tenant-1'' else ''uuid''),
      order_create = (\<lambda>rq. Inr (JObj [(''id'', JStr ''order_abc''),
                                         (''status'', JStr ''created'')])),
      payment_fetch = (\<lambda>pid. Inr (JObj [(''id'', JStr pid),
                                          (''status'', JStr ''captured'')])),
      payment_refund = (\<lambda>pid rp. Inr (JObj [(''id'', JStr ''rfnd_1''),
                                              (''payment_id'', JStr pid)])),
      generate_receipt_pdf = (\<lambda>receipt_no customer_name amount currency. Inr ''%PDF''),
      send_booking_email_delay = (\<lambda>to_email subject body attachment. Inr ())\<rparr>"

definition scenario_appointment :: Appointment where
  "scenario_appointment =
     \<lparr>appt_id = UUID 2, appt_tenant_id = UUID 1, appt_customer_id = UUID 3,
      appt_amount_due = Some (Fin 900), appt_currency = ''INR'',
      appt_payment_status = UNPAID\<rparr>"

definition scenario_customer :: Customer where
  "scenario_customer =
     \<lparr>cust_id = UUID 3, cust_tenant_id = UUID 1, cust_full_name = ''Asha'',
      cust_email = ''asha@example.org'', cust_phone = ''5550100''\<rparr>"

text \<open>The payment of Scenario A and its \<^verbatim>\<open>order.created\<close> event.\<close>

definition scenario_payment :: Payment where
  "scenario_payment =
     \<lparr>pay_id = UUID 10, pay_tenant_id = UUID 1, pay_appointment_id = UUID 2,
      pay_customer_id = UUID 3, pay_provider = RAZORPAY,
      pay_provider_order_id = ''order_abc'', pay_provider_payment_id = None,
      pay_amount = Fin 900, pay_currency = ''INR'', pay_status = CREATED\<rparr>"

definition scenario_order_event :: PaymentEvent where
  "scenario_order_event =
     \<lparr>ev_tenant_id = UUID 1, ev_provider = RAZORPAY, ev_event_type = ''order.created'',
      ev_provider_event_id = Some ''order_abc'', ev_provider_payment_id = None,
      ev_provider_order_id = Some ''order_abc'',
      ev_payload = JObj [(''id'', JStr ''order_abc''), (''status'', JStr ''created'')]\<rparr>"

text \<open>The payment once captured as \<^verbatim>\<open>pay_1\<close>.\<close>

definition scenario_captured :: Payment where
  "scenario_captured =
     scenario_payment\<lparr>pay_provider_payment_id := Some ''pay_1'', pay_status := CAPTURED\<rparr>"

text \<open>The database with that one payment, the appointment's payment status and the
  events after \<^verbatim>\<open>order.created\<close>.\<close>

definition scenario_db :: "Payment \<Rightarrow> ApptPayStatus \<Rightarrow> PaymentEvent list \<Rightarrow> db" where
  "scenario_db pay appt_status evs =
     \<lparr>payments = [pay], payment_events = scenario_order_event # evs,
      appointments = [scenario_appointment\<lparr>appt_payment_status := appt_status\<rparr>],
      customers = [scenario_customer]\<rparr>"

text \<open>A notification with one payment entity, and its authenticated delivery.\<close>

definition payment_notification :: "string \<Rightarrow> string \<Rightarrow> string \<Rightarrow> string \<Rightarrow> json" where
  "payment_notification event payment_id order_id status =
     JObj [(''event'', JStr event),
           (''payload'', JObj [(''payment'', JObj [(''entity'',
              JObj [(''id'', JStr payment_id), (''order_id'', JStr order_id),
                    (''status'', JStr status)])])])]"

definition delivery :: "json \<Rightarrow> request" where
  "delivery payload_json =
     \<lparr>req_raw = ''raw'', req_signature = ''whsec:raw'', req_json = Some payload_json\<rparr>"

text \<open>The event a webhook stores for such a notification.\<close>

definition webhook_event :: "string \<Rightarrow> string \<Rightarrow> string \<Rightarrow> string \<Rightarrow> PaymentEvent" where
  "webhook_event event payment_id order_id status =
     \<lparr>ev_tenant_id = UUID 1, ev_provider = RAZORPAY, ev_event_type = event,
      ev_provider_event_id = Some payment_id, ev_provider_payment_id = Some payment_id,
      ev_provider_order_id = Some order_id,
      ev_payload = payment_notification event payment_id order_id status\<rparr>"

text \<open>The database before the order of Scenario A, the caller's token and the order
  request for 900.00 INR.\<close>

definition scenario_initial_db :: db where
  "scenario_initial_db =
     \<lparr>payments = [], payment_events = [],
      appointments = [scenario_appointment], customers = [scenario_customer]\<rparr>"

definition scenario_token :: json where
  "scenario_token = JObj [(''tenant_id'', JStr ''tenant-1''), (''type'', JStr ''access'')]"

definition scenario_order_body :: CreateRazorpayOrderIn where
  "scenario_order_body =
     \<lparr>cin_appointment_id = UUID 2, cin_amount = Fin 900, cin_currency = ''INR''\<rparr>"

text \<open>The checkout verification of \<^verbatim>\<open>pay_1\<close> with its signature, the event it stores,
  and a partial refund of 300.00.\<close>

definition scenario_verify_body :: RazorpayVerifyIn where
  "scenario_verify_body =
     \<lparr>vin_payment_id = UUID 10, razorpay_order_id = ''order_abc'',
      razorpay_payment_id = ''pay_1'', razorpay_signature = ''keysec:order_abc|pay_1''\<rparr>"

definition checkout_event :: PaymentEvent where
  "checkout_event =
     \<lparr>ev_tenant_id = UUID 1, ev_provider = RAZORPAY, ev_event_type = ''checkout.verified'',
      ev_provider_event_id = None, ev_provider_payment_id = Some ''pay_1'',
      ev_provider_order_id = Some ''order_abc'',
      ev_payload = JObj [(''razorpay_payment'',
                          JObj [(''id'', JStr ''pay_1''), (''status'', JStr ''captured'')])]\<rparr>"

definition scenario_refund_body :: RefundIn where
  "scenario_refund_body = \<lparr>rin_payment_id = UUID 10, rin_amount = Some (Fin 300)\<rparr>"

definition refund_event :: PaymentEvent where
  "refund_event =
     \<lparr>ev_tenant_id = UUID 1, ev_provider = RAZORPAY, ev_event_type = ''refund.created'',
      ev_provider_event_id = Some ''rfnd_1'', ev_provider_payment_id = Some ''pay_1'',
      ev_provider_order_id = Some ''order_abc'',
      ev_payload = JObj [(''id'', JStr ''rfnd_1''), (''payment_id'', JStr ''pay_1'')]\<rparr>"

text \<open>The same collaborators with a receipt renderer that raises, with a task queue that
  raises, and with a provider that reports the fetched payment as refunded.\<close>

definition raising_renderer :: collaborators where
  "raising_renderer =
     scenario_collaborators\<lparr>generate_receipt_pdf :=
       (\<lambda>receipt_no customer_name amount currency. Inl CollaboratorError)\<rparr>"

definition raising_task_queue :: collaborators where
  "raising_task_queue =
     scenario_collaborators\<lparr>send_booking_email_delay :=
       (\<lambda>to_email subject body attachment. Inl CollaboratorError)\<rparr>"

definition refunded_at_provider :: collaborators where
  "refunded_at_provider =
     scenario_collaborators\<lparr>payment_fetch :=
       (\<lambda>pid. Inr (JObj [(''id'', JStr pid), (''status'', JStr ''refunded'')]))\<rparr>"

definition refunded_checkout_event :: PaymentEvent where
  "refunded_checkout_event =
     checkout_event\<lparr>ev_payload := JObj [(''razorpay_payment'',
        JObj [(''id'', JStr ''pay_1''), (''status'', JStr ''refunded'')])]\<rparr>"

section \<open>Lemmas about the model\<close>

lemma first_index_Some: "first_index P xs = Some i \<Longrightarrow> i < length xs \<and> P (xs ! i)"
  by (induction xs arbitrary: i) (auto split: if_splits)

lemma first_index_None: "(first_index P xs = None) = (\<forall>x \<in> set xs. \<not> P x)"
  by (induction xs) auto

lemma lookup_by_hint_miss:
  "\<forall>p \<in> set (payments d). JStr (pay_provider_order_id p) \<noteq> env_provider_order_id env
   \<Longrightarrow> lookup_by_hint C d env = None"
  by (auto simp: lookup_by_hint_def first_index_None split: json.splits option.splits)

lemma resolve_payment_Some:
  assumes "resolve_payment C d env = Inr (Some i)"
  shows "i < length (payments d) \<and>
         env_provider_order_id env = JStr (pay_provider_order_id (payments d ! i)) \<and>
         pay_provider_order_id (payments d ! i) \<noteq> []"
proof (cases "lookup_by_hint C d env")
  case (Some k)
  then have "k = i" using assms by (simp add: resolve_payment_def)
  with Some show ?thesis
    by (auto simp: lookup_by_hint_def split: if_splits json.splits option.splits
        dest!: first_index_Some)
next
  case None
  then show ?thesis using assms
    by (cases "env_provider_order_id env")
       (auto simp: resolve_payment_def split: if_splits dest!: first_index_Some)
qed

text \<open>\<open>spec_reachable\<close> is the transitive closure of the specification's graph.\<close>

lemma spec_reachable_tranclp: "spec_reachable a b = spec_transition\<^sup>+\<^sup>+ a b"
proof
  assume "spec_reachable a b"
  then show "spec_transition\<^sup>+\<^sup>+ a b"
  proof (cases a)
    case CREATED
    have "spec_transition\<^sup>+\<^sup>+ CREATED CAPTURED" by (rule tranclp.r_into_trancl) simp
    then have "spec_transition\<^sup>+\<^sup>+ CREATED REFUNDED" by (rule tranclp.trancl_into_trancl) simp
    moreover have "spec_transition\<^sup>+\<^sup>+ CREATED AUTHORIZED" "spec_transition\<^sup>+\<^sup>+ CREATED CAPTURED"
      "spec_transition\<^sup>+\<^sup>+ CREATED FAILED" by (rule tranclp.r_into_trancl, simp)+
    ultimately show ?thesis using CREATED \<open>spec_reachable a b\<close> by (cases b) auto
  next
    case AUTHORIZED
    have "spec_transition\<^sup>+\<^sup>+ AUTHORIZED CAPTURED" by (rule tranclp.r_into_trancl) simp
    then have "spec_transition\<^sup>+\<^sup>+ AUTHORIZED REFUNDED" by (rule tranclp.trancl_into_trancl) simp
    moreover have "spec_transition\<^sup>+\<^sup>+ AUTHORIZED CAPTURED" "spec_transition\<^sup>+\<^sup>+ AUTHORIZED FAILED"
      by (rule tranclp.r_into_trancl, simp)+
    ultimately show ?thesis using AUTHORIZED \<open>spec_reachable a b\<close> by (cases b) auto
  next
    case CAPTURED
    then show ?thesis using \<open>spec_reachable a b\<close> by (auto intro: tranclp.r_into_trancl)
  qed auto
next
  assume "spec_transition\<^sup>+\<^sup>+ a b"
  then show "spec_reachable a b"
  proof (induction rule: tranclp.induct)
    case (r_into_trancl a b)
    then show ?case by (cases a) auto
  next
    case (trancl_into_trancl a b c)
    then show ?case by (cases a; cases b) auto
  qed
qed

subsection \<open>The scenarios\<close>

lemma delivery_authentic:
  "verify_razorpay_webhook_signature scenario_collaborators (req_raw (delivery pj))
     (req_signature (delivery pj)) (RAZORPAY_WEBHOOK_SECRET scenario_collaborators) = Inr True"
  by (simp add: verify_razorpay_webhook_signature_def compare_digest_def is_ascii_def
      scenario_collaborators_def delivery_def)

lemma delivery_simps:
  "req_json (delivery pj) = Some pj" "req_signature (delivery pj) \<noteq> []"
  by (simp_all add: delivery_def)

lemma extract_payment_notification:
  "extract_envelope (payment_notification ev pid oid st) =
     Inr \<lparr>env_event_type = JStr ev, env_event_id = (if pid = [] then JNull else JStr pid),
          env_provider_order_id = JStr oid, env_provider_payment_id = JStr pid,
          env_status = JStr st, env_tenant_id_str = JNull\<rparr>"
  by (simp add: extract_envelope_def entity_id_def safe_entity_def payment_notification_def
      py_or_def or_else_def)

lemmas webhook_eval = razorpay_webhook_def delivery_authentic delivery_simps
  extract_payment_notification webhook_reconcile_def resolve_payment_def lookup_by_hint_def
  event_exists_def webhook_apply_def py_or_def webhook_status_def mirror_status_def
  scenario_db_def scenario_payment_def scenario_captured_def scenario_order_event_def scenario_appointment_def
  webhook_event_def

text \<open>Scenario A: the captured notification on the created payment.\<close>

lemma scenario_A:
  "razorpay_webhook scenario_collaborators
     (delivery (payment_notification ''payment.captured'' ''pay_1'' ''order_abc'' ''captured''))
     (scenario_db scenario_payment UNPAID []) =
   \<lparr>response = Inr Success,
    committed =
      scenario_db scenario_captured PAID
        [webhook_event ''payment.captured'' ''pay_1'' ''order_abc'' ''captured''],
    effects = []\<rparr>"
  by (simp add: webhook_eval)

subsection \<open>Every payment keeps its \<^verbatim>\<open>order.created\<close> event\<close>




lemma bind_e_Inr_iff: "(bind_e m f = Inr r) = (\<exists>v. m = Inr v \<and> f v = Inr r)"
  by (cases m) auto

lemma webhook_apply_payments:
  assumes "webhook_apply d i env pj = Inr d'"
  shows "\<exists>pid. sql_column (py_or (env_provider_payment_id env) JNull) = Inr pid \<and>
           payments d' = (payments d)[i := (payments d ! i)
             \<lparr>pay_status := webhook_status (env_status env) (pay_status (payments d ! i)),
              pay_provider_payment_id :=
                (if truthy (env_provider_payment_id env) then pid
                 else pay_provider_payment_id (payments d ! i))\<rparr>]"
  using assms by (auto simp: webhook_apply_def Let_def bind_e_Inr_iff)





lemma verify_captured_committed:
  "committed (verify_captured C body t i j pay rp fx d) = d \<or>
   (payments (committed (verify_captured C body t i j pay rp fx d)) = (payments d)[i := pay] \<and>
    appointments (committed (verify_captured C body t i j pay rp fx d)) =
      (appointments d)[j := (appointments d ! j)\<lparr>appt_payment_status := PAID\<rparr>] \<and>
    (\<exists>ev. payment_events (committed (verify_captured C body t i j pay rp fx d)) =
            payment_events d @ [ev]))"
  by (auto simp: verify_captured_def failed_def split: sum.splits)




lemma refund_store_payments:
  assumes "refund_store t i refund d = Inr d'"
  shows "payments d' = (payments d)[i := (payments d ! i)\<lparr>pay_status := REFUNDED\<rparr>]"
    and "\<exists>ev. payment_events d' = payment_events d @ [ev]"
  using assms by (auto simp: refund_store_def Let_def bind_e_Inr_iff)









subsection \<open>Binary64 arithmetic on amounts\<close>

text \<open>Whole amounts are binary64 values, and their product with 100 is exact.\<close>

lemma bits_bounds: "0 < n \<Longrightarrow> (2::nat) ^ (bits n - 1) \<le> n \<and> n < 2 ^ bits n"
proof (induction n rule: bits.induct)
  case (1 n)
  show ?case
  proof (cases "n div 2 = 0")
    case True
    with 1(2) have "n = 1" by (simp add: div_eq_0_iff) 
    then show ?thesis by (simp add: bits.simps)
  next
    case False
    then have pos: "0 < n div 2" by simp
    from 1(1) [OF _ pos] 1(2)
    have ih: "(2::nat) ^ (bits (n div 2) - 1) \<le> n div 2" "n div 2 < 2 ^ bits (n div 2)" by auto
    have b: "bits n = Suc (bits (n div 2))" using 1(2) by (subst bits.simps) simp
    have bp: "0 < bits (n div 2)" using pos by (subst bits.simps) simp
    then have e: "bits n - 1 = Suc (bits (n div 2) - 1)" using b by simp
    have "(2::nat) ^ (bits n - 1) = 2 * 2 ^ (bits (n div 2) - 1)" unfolding e by simp
    also have "\<dots> \<le> 2 * (n div 2)" using ih(1) by simp
    also have "\<dots> \<le> n" by simp
    finally have lo: "(2::nat) ^ (bits n - 1) \<le> n" .
    have "n < 2 * (n div 2) + 2" by presburger
    also have "\<dots> \<le> 2 * 2 ^ bits (n div 2)" using ih(2) by simp
    finally have "n < 2 ^ bits n" by (simp add: b)
    with lo show ?thesis by simp
  qed
qed

lemma bits_1: "bits (Suc 0) = 1"
  by (simp add: bits.simps)

lemma round_half_even_of_int: "round_half_even (of_int n) = n"
  by (simp add: round_half_even_def Let_def)

lemma to_double_of_int:
  assumes "0 < n" "n < 2 ^ 53"
  shows "to_double (of_int n) = Fin (of_int n)"
proof -
  let ?b = "bits (nat n)"
  have bb: "(2::nat) ^ (?b - 1) \<le> nat n" "nat n < 2 ^ ?b" using bits_bounds [of "nat n"] assms(1) by auto
  have bpos: "0 < ?b" using assms(1) by (subst bits.simps) simp
  have "(2::nat) ^ (?b - 1) < 2 ^ 53"
    using bb(1) assms by (metis le_less_trans nat_less_numeral_power_cancel_iff) 
  then have ble: "?b - 1 < 53" by (simp only: power_strict_increasing_iff rel_simps)
  have q: "quotient_of (of_int n) = (n, 1)" by simp
  have le: "pow2 (int ?b - 1) \<le> of_int n"
  proof -
    have "pow2 (int ?b - 1) = 2 ^ (?b - 1)" using bpos by (simp add: pow2_def nat_diff_distrib')
    also have "\<dots> = of_nat (2 ^ (?b - 1))" by simp
    also have "\<dots> \<le> of_nat (nat n)" using bb(1) by (simp only: of_nat_le_iff)
    also have "\<dots> = of_int n" using assms(1) by simp
    finally show ?thesis .
  qed
  have il: "ilog2 (of_int n) = int ?b - 1"
    using le by (simp add: ilog2_def q bits_1 Let_def)
  define s where "s = 53 - ?b"
  have p: "max (ilog2 \<bar>of_int n\<bar> - 52) (- 1074) = - int s"
    using assms(1) ble bpos by (simp add: il s_def)
  have pw: "pow2 (- int s) = 1 / 2 ^ s" by (simp add: pow2_def)
  have m: "round_half_even (\<bar>of_int n\<bar> / pow2 (- int s)) = n * 2 ^ s"
  proof -
    have "\<bar>of_int n :: rat\<bar> / pow2 (- int s) = of_int (n * 2 ^ s)"
      using assms(1) by (simp add: pw)
    then show ?thesis by (simp only: round_half_even_of_int)
  qed
  have v: "rat_of_int (n * 2 ^ s) * pow2 (- int s) = of_int n" by (simp add: pw)
  have big: "\<not> pow2 1024 \<le> rat_of_int n"
  proof -
    have "rat_of_int n < of_int (2 ^ 53)" using assms(2) by (simp only: of_int_less_iff)
    also have "\<dots> \<le> pow2 1024" by (simp add: pow2_def)
    finally show ?thesis by simp
  qed
  have nz: "rat_of_int n \<noteq> 0" using assms(1) by simp
  have sg: "sgn (rat_of_int n) = 1" using assms(1) by simp
  show ?thesis
    unfolding to_double_def Let_def p m v using big nz sg by simp
qed

lemma whole_rupees_to_paisa:
  assumes "0 < n" "n < 90071992547409"
  shows "rupees_to_paisa (Fin (of_int n)) = Inr (n * 100)"
proof -
  have "to_double (of_int (n * 100)) = Fin (of_int (n * 100))"
    using assms by (intro to_double_of_int) auto
  then show ?thesis
    by (simp add: rupees_to_paisa_def round_half_even_of_int [of "n * 100", simplified])
qed

text \<open>
  \<open>ilog2\<close> is the binary exponent, rounding to an integer is off by at most a half, and
  so \<open>to_double\<close> is off by at most the relative error \<open>2 ^ - 53\<close> in the normal range.
\<close>

lemma pow2_powi: "pow2 e = 2 powi e"
  by (simp add: pow2_def power_int_def divide_simps)

lemma pow2_pos: "0 < pow2 e"
  by (simp add: pow2_powi)

lemma pow2_add: "pow2 (a + b) = pow2 a * pow2 b"
  by (simp add: pow2_powi power_int_add)

lemma pow2_mono: "a \<le> b \<Longrightarrow> pow2 a \<le> pow2 b"
  by (simp add: pow2_powi power_int_increasing)

lemma pow2_strict_mono: "a < b \<Longrightarrow> pow2 a < pow2 b"
  by (simp add: pow2_powi power_int_strict_increasing)

lemma pow2_le_iff: "(pow2 a \<le> pow2 b) = (a \<le> b)"
  using pow2_mono [of a b] pow2_strict_mono [of b a] by (auto simp: not_le [symmetric])

lemma pow2_less_iff: "(pow2 a < pow2 b) = (a < b)"
  using pow2_strict_mono [of a b] pow2_mono [of b a] by (auto simp: not_less [symmetric])

lemma pow2_nat: "pow2 (int n) = 2 ^ n"
  by (simp add: pow2_def)

lemma pow2_diff_nat: "pow2 (int a - int b) = 2 ^ a / 2 ^ b"
proof -
  have "pow2 (int a - int b) * pow2 (int b) = pow2 (int a)"
    by (simp add: pow2_add [symmetric])
  then show ?thesis by (simp add: pow2_nat field_simps)
qed

lemma ilog2_bounds:
  assumes "0 < a"
  shows "pow2 (ilog2 a) \<le> a \<and> a < pow2 (ilog2 a + 1)"
proof -
  obtain n d where q: "quotient_of a = (n, d)" by (cases "quotient_of a")
  have d: "0 < d" using quotient_of_denom_pos [OF q] .
  have a: "a = of_int n / of_int d" using quotient_of_div [OF q] .
  have n: "0 < n" using assms d a by (simp add: zero_less_divide_iff)
  let ?bn = "bits (nat n)" and ?bd = "bits (nat d)"
  have bn: "(2::nat) ^ (?bn - 1) \<le> nat n" "nat n < 2 ^ ?bn"
    using bits_bounds [of "nat n"] n by auto
  have bd: "(2::nat) ^ (?bd - 1) \<le> nat d" "nat d < 2 ^ ?bd"
    using bits_bounds [of "nat d"] d by auto
  have bnp: "0 < ?bn" using n by (subst bits.simps) simp
  have bdp: "0 < ?bd" using d by (subst bits.simps) simp
  have rn: "(2::rat) ^ (?bn - 1) \<le> of_int n" "rat_of_int n < 2 ^ ?bn"
  proof -
    have "rat_of_nat (2 ^ (?bn - 1)) \<le> of_nat (nat n)" using bn(1) by (simp only: of_nat_le_iff)
    then show "(2::rat) ^ (?bn - 1) \<le> of_int n" using n by simp
    have "rat_of_nat (nat n) < of_nat (2 ^ ?bn)" using bn(2) by (simp only: of_nat_less_iff)
    then show "rat_of_int n < 2 ^ ?bn" using n by simp
  qed
  have rd: "(2::rat) ^ (?bd - 1) \<le> of_int d" "rat_of_int d < 2 ^ ?bd"
  proof -
    have "rat_of_nat (2 ^ (?bd - 1)) \<le> of_nat (nat d)" using bd(1) by (simp only: of_nat_le_iff)
    then show "(2::rat) ^ (?bd - 1) \<le> of_int d" using d by simp
    have "rat_of_nat (nat d) < of_nat (2 ^ ?bd)" using bd(2) by (simp only: of_nat_less_iff)
    then show "rat_of_int d < 2 ^ ?bd" using d by simp
  qed
  define k where "k = int ?bn - int ?bd"
  have dpos: "0 < rat_of_int d" using d by simp
  have up: "a < pow2 (k + 1)"
  proof -
    have "pow2 (k + 1) = 2 ^ ?bn / 2 ^ (?bd - 1)"
      using bdp pow2_diff_nat [of ?bn "?bd - 1"] by (simp add: k_def of_nat_diff algebra_simps)
    moreover have "a * 2 ^ (?bd - 1) < 2 ^ ?bn"
    proof -
      have "a * 2 ^ (?bd - 1) \<le> a * of_int d" using rd(1) assms by (simp add: mult_left_mono)
      also have "\<dots> = of_int n" using a dpos by simp
      also have "\<dots> < 2 ^ ?bn" by (rule rn(2))
      finally show ?thesis .
    qed
    ultimately show ?thesis by (simp add: pos_less_divide_eq)
  qed
  have lo: "pow2 (k - 1) \<le> a"
  proof -
    have "pow2 (k - 1) = 2 ^ (?bn - 1) / 2 ^ ?bd"
      using bnp pow2_diff_nat [of "?bn - 1" ?bd] by (simp add: k_def of_nat_diff algebra_simps)
    moreover have "2 ^ (?bn - 1) \<le> a * 2 ^ ?bd"
    proof -
      have "(2::rat) ^ (?bn - 1) \<le> of_int n" by (rule rn(1))
      also have "\<dots> = a * of_int d" using a dpos by simp
      also have "\<dots> \<le> a * 2 ^ ?bd" using rd(2) assms by (simp add: mult_left_mono)
      finally show ?thesis .
    qed
    ultimately show ?thesis by (simp add: pos_divide_le_eq)
  qed
  have il: "ilog2 a = (if pow2 k \<le> a then k else k - 1)"
    by (simp add: ilog2_def q k_def Let_def)
  show ?thesis
  proof (cases "pow2 k \<le> a")
    case True
    then show ?thesis using il up by simp
  next
    case False
    then show ?thesis using il lo by simp
  qed
qed

lemma ilog2_unique:
  assumes "pow2 e \<le> a" "a < pow2 (e + 1)"
  shows "ilog2 a = e"
proof -
  have pos: "0 < a" using assms(1) pow2_pos [of e] by simp
  from ilog2_bounds [OF pos] have b: "pow2 (ilog2 a) \<le> a" "a < pow2 (ilog2 a + 1)" by auto
  have "pow2 e < pow2 (ilog2 a + 1)" using assms(1) b(2) by simp
  then have 1: "e < ilog2 a + 1" by (simp only: pow2_less_iff)
  have "pow2 (ilog2 a) < pow2 (e + 1)" using assms(2) b(1) by simp
  then have 2: "ilog2 a < e + 1" by (simp only: pow2_less_iff)
  from 1 2 show ?thesis by simp
qed

lemma round_half_even_error: "\<bar>of_int (round_half_even x) - x\<bar> \<le> 1 / 2"
proof -
  have "of_int \<lfloor>x\<rfloor> \<le> x" "x < of_int \<lfloor>x\<rfloor> + 1" by linarith+
  then show ?thesis by (auto simp: round_half_even_def Let_def)
qed

lemma round_half_even_near:
  assumes "\<bar>x - of_int k\<bar> < 1 / 2"
  shows "round_half_even x = k"
proof -
  have ab: "x - of_int k < 1 / 2" "of_int k - x < 1 / 2" using assms by linarith+
  have "of_int (k - 1) \<le> x" "x < of_int (k + 1)" using ab by simp_all
  then have "k - 1 \<le> \<lfloor>x\<rfloor>" "\<lfloor>x\<rfloor> < k + 1"
    by (simp_all only: le_floor_iff floor_less_iff)
  then have f: "\<lfloor>x\<rfloor> = k \<or> \<lfloor>x\<rfloor> = k - 1" by linarith
  then show ?thesis
  proof
    assume "\<lfloor>x\<rfloor> = k"
    then show ?thesis using ab by (simp add: round_half_even_def Let_def)
  next
    assume "\<lfloor>x\<rfloor> = k - 1"
    then show ?thesis using ab by (simp add: round_half_even_def Let_def)
  qed
qed

lemma to_double_error:
  assumes "pow2 (- 1022) \<le> x" "x < pow2 1023"
  shows "\<exists>y. to_double x = Fin y \<and> \<bar>y - x\<bar> \<le> x / 2 ^ 53"
proof -
  have pos: "0 < x" using assms(1) pow2_pos [of "- 1022"] by simp
  define e where "e = ilog2 x"
  from ilog2_bounds [OF pos] have b: "pow2 e \<le> x" "x < pow2 (e + 1)" by (auto simp: e_def)
  have "pow2 (- 1022) < pow2 (e + 1)" using assms(1) b(2) by simp
  then have elo: "- 1022 \<le> e" by (simp add: pow2_less_iff)
  have "pow2 e < pow2 1023" using assms(2) b(1) by simp
  then have ehi: "e < 1023" by (simp only: pow2_less_iff)
  define p where "p = e - 52"
  have pmax: "max (ilog2 \<bar>x\<bar> - 52) (- 1074) = p" using pos elo by (simp add: p_def e_def)
  have pp: "0 < pow2 p" by (rule pow2_pos)
  define m where "m = round_half_even (\<bar>x\<bar> / pow2 p)"
  define v where "v = rat_of_int m * pow2 p"
  have "\<bar>of_int m - x / pow2 p\<bar> \<le> 1 / 2"
    using round_half_even_error [of "x / pow2 p"] pos by (simp add: m_def)
  then have "\<bar>of_int m - x / pow2 p\<bar> * pow2 p \<le> 1 / 2 * pow2 p"
    using pp by (simp only: mult_le_cancel_right_pos)
  moreover have "\<bar>of_int m - x / pow2 p\<bar> * pow2 p = \<bar>v - x\<bar>"
  proof -
    have "\<bar>of_int m - x / pow2 p\<bar> * pow2 p = \<bar>(of_int m - x / pow2 p) * pow2 p\<bar>"
      using pp by (simp add: abs_mult)
    also have "(of_int m - x / pow2 p) * pow2 p = v - x"
      using pp by (simp add: v_def algebra_simps)
    finally show ?thesis .
  qed
  ultimately have err: "\<bar>v - x\<bar> \<le> pow2 p / 2" by simp
  have "pow2 e = pow2 p * pow2 52" by (simp add: p_def pow2_add [symmetric])
  then have pe: "pow2 p = pow2 e / 2 ^ 52" by (simp add: pow2_def)
  have half: "pow2 p / 2 \<le> x / 2 ^ 53"
    using b(1) by (simp add: pe)
  have err2: "\<bar>v - x\<bar> \<le> x / 2 ^ 53" using err half by simp
  have "v \<le> x + x / 2 ^ 53" using err2 by linarith
  also have "\<dots> < 2 * x" using pos by simp
  also have "\<dots> < 2 * pow2 1023" using assms(2) by simp
  also have "\<dots> = pow2 1024" by (simp add: pow2_def)
  finally have nov: "\<not> pow2 1024 \<le> v" by simp
  have "to_double x = Fin v"
    using pos nov unfolding to_double_def Let_def pmax m_def [symmetric] v_def [symmetric]
    by simp
  then show ?thesis using err2 by blast
qed

text \<open>
  An amount with two decimals, \<open>k / 100\<close>, reaches the handler as the binary64 value
  nearest to it. Its product with 100 is within \<open>3 * k / 2 ^ 53\<close> of \<open>k\<close>, which is less
  than a half, so rounding gives \<open>k\<close> (where truncating can give \<open>k - 1\<close>).
\<close>

lemma two_decimals_to_paisa:
  assumes "0 < k" "k < 2 ^ 50"
  shows "rupees_to_paisa (to_double (of_int k / 100)) = Inr k"
proof -
  let ?a = "rat_of_int k / 100"
  have k1: "1 \<le> rat_of_int k" using assms(1) by simp
  have kh: "rat_of_int k < 2 ^ 50"
  proof -
    have "rat_of_int k < of_int (2 ^ 50)" using assms(2) by (simp only: of_int_less_iff)
    then show ?thesis by simp
  qed
  have small: "pow2 (- 1022) \<le> 1 / 200" by (simp add: pow2_def)
  have big: "(2::rat) ^ 51 \<le> pow2 1023" by (simp add: pow2_def)
  have "pow2 (- 1022) \<le> ?a" using small k1 by simp
  moreover have "?a < pow2 1023" using kh big by simp
  ultimately obtain x where x: "to_double ?a = Fin x" "\<bar>x - ?a\<bar> \<le> ?a / 2 ^ 53"
    using to_double_error by blast
  have apos: "0 < ?a" using k1 by simp
  have "?a / 2 ^ 53 \<le> ?a / 2" using apos by (intro divide_left_mono) auto
  then have xd: "\<bar>x - ?a\<bar> \<le> ?a / 2" using x(2) by linarith
  have xlo: "?a / 2 \<le> x" using xd by linarith
  have xhi: "x \<le> 2 * ?a" using xd apos by linarith
  have "1 / 200 \<le> ?a / 2" using k1 by simp
  then have "pow2 (- 1022) \<le> x * 100" using small xlo by linarith
  moreover have "x * 100 < pow2 1023"
  proof -
    have "x * 100 \<le> 2 * rat_of_int k" using xhi by simp
    also have "\<dots> < 2 ^ 51" using kh by simp
    also have "\<dots> \<le> pow2 1023" by (rule big)
    finally show ?thesis .
  qed
  ultimately obtain y where y: "to_double (x * 100) = Fin y"
      "\<bar>y - x * 100\<bar> \<le> x * 100 / 2 ^ 53"
    using to_double_error by blast
  have "\<bar>y - of_int k\<bar> \<le> \<bar>y - x * 100\<bar> + \<bar>x * 100 - of_int k\<bar>" by linarith
  also have "\<bar>x * 100 - of_int k\<bar> = 100 * \<bar>x - ?a\<bar>" by (simp add: abs_if)
  also have "\<bar>y - x * 100\<bar> + 100 * \<bar>x - ?a\<bar> \<le> x * 100 / 2 ^ 53 + 100 * (?a / 2 ^ 53)"
  proof (rule add_mono)
    show "\<bar>y - x * 100\<bar> \<le> x * 100 / 2 ^ 53" by (rule y(2))
    show "100 * \<bar>x - ?a\<bar> \<le> 100 * (?a / 2 ^ 53)" using x(2) by (intro mult_left_mono) auto
  qed
  also have "\<dots> \<le> 3 * of_int k / 2 ^ 53" using xhi by (simp add: field_simps)
  also have "\<dots> < 1 / 2" using kh by simp
  finally have "round_half_even y = k" by (rule round_half_even_near)
  then show ?thesis by (simp add: rupees_to_paisa_def x(1) y(1))
qed

text \<open>The amount 19.99: its binary64 value, and the product with 100, which is below
  1999.\<close>

lemma to_double_value:
  assumes "pow2 e \<le> x" "x < pow2 (e + 1)" "- 1022 \<le> e"
    and "\<bar>x / pow2 (e - 52) - of_int m\<bar> < 1 / 2"
    and "of_int m * pow2 (e - 52) < pow2 1024"
  shows "to_double x = Fin (of_int m * pow2 (e - 52))"
proof -
  have pos: "0 < x" using assms(1) pow2_pos [of e] by simp
  have il: "ilog2 x = e" using assms(1,2) by (rule ilog2_unique)
  have pmax: "max (ilog2 \<bar>x\<bar> - 52) (- 1074) = e - 52" using pos assms(3) by (simp add: il)
  have m: "round_half_even (\<bar>x\<bar> / pow2 (e - 52)) = m"
    using round_half_even_near [OF assms(4)] pos by simp
  show ?thesis
    unfolding to_double_def Let_def pmax m using pos assms(5) by simp
qed

lemma double_19_99: "to_double (1999 / 100) = Fin (5626684784446013 / 2 ^ 48)"
  using to_double_value [of 4 "1999 / 100" 5626684784446013]
  by (simp add: pow2_def)

lemma double_19_99_times_100:
  "times_100 (to_double (1999 / 100)) = Fin (1999 - 1 / 2 ^ 42)"
  using to_double_value [of 10 "5626684784446013 / 2 ^ 48 * 100" 8791694975696895]
  by (simp add: double_19_99 pow2_def)

lemma floor_19_99: "\<lfloor>(1999::rat) - 1 / 2 ^ 42\<rfloor> = 1998"
  by (rule floor_unique) simp_all

subsection \<open>Scenario A: the order\<close>


lemma paisa_300: "rupees_to_paisa (Fin 300) = Inr 30000"
  using whole_rupees_to_paisa [of 300] by simp

lemma token_tenant_scenario: "token_tenant scenario_collaborators scenario_token = Inr (UUID 1)"
  by (simp add: token_tenant_def scenario_token_def scenario_collaborators_def)



subsection \<open>Checkout verification and refund\<close>

lemma checkout_signature_scenario:
  "verify_razorpay_checkout_signature scenario_collaborators ''order_abc'' ''pay_1''
     ''keysec:order_abc|pay_1'' ''keysec'' = Inr True"
  by (simp add: verify_razorpay_checkout_signature_def compare_digest_def is_ascii_def
      scenario_collaborators_def)

lemmas verify_eval = razorpay_verify_def verify_fetch_def verify_captured_def verify_status_def
  token_tenant_scenario scenario_verify_body_def checkout_signature_scenario
  scenario_db_def scenario_payment_def scenario_captured_def scenario_appointment_def
  checkout_event_def failed_def

lemma scenario_collaborators_simps:
  "RAZORPAY_KEY_SECRET scenario_collaborators = ''keysec''"
  "payment_fetch scenario_collaborators pid =
     Inr (JObj [(''id'', JStr pid), (''status'', JStr ''captured'')])"
  "payment_refund scenario_collaborators pid rp =
     Inr (JObj [(''id'', JStr ''rfnd_1''), (''payment_id'', JStr pid)])"
  "generate_receipt_pdf scenario_collaborators a b c e = Inr ''%PDF''"
  "send_booking_email_delay scenario_collaborators f g h k = Inr ()"
  "uuid_str scenario_collaborators (UUID 10) = ''uuid''"
  by (simp_all add: scenario_collaborators_def)

text \<open>Checkout verification on the created payment.\<close>

lemma scenario_verify:
  "razorpay_verify scenario_collaborators scenario_verify_body scenario_token
     (scenario_db scenario_payment UNPAID []) =
   \<lparr>response = Inr CAPTURED,
    committed = scenario_db scenario_captured PAID [checkout_event],
    effects = [PaymentFetch ''pay_1'', ReceiptRendered ''%PDF'',
               EmailEnqueued ''customer@email.com'' ''%PDF'']\<rparr>"
  by (simp add: verify_eval scenario_collaborators_simps)

lemmas refund_eval = razorpay_refund_def refund_payload_def refund_store_def paisa_300
  token_tenant_scenario scenario_refund_body_def scenario_db_def scenario_payment_def
  scenario_captured_def scenario_appointment_def refund_event_def failed_def

text \<open>Scenario D: 300.00 refunded on the captured payment of 900.00.\<close>

lemma scenario_D:
  "razorpay_refund scenario_collaborators scenario_refund_body scenario_token
     (scenario_db scenario_captured PAID evs) =
   \<lparr>response = Inr (JObj [(''id'', JStr ''rfnd_1''), (''payment_id'', JStr ''pay_1'')]),
    committed = scenario_db (scenario_captured\<lparr>pay_status := REFUNDED\<rparr>) APPT_REFUNDED
                  (evs @ [refund_event]),
    effects = [PaymentRefund ''pay_1'' (JObj [(''amount'', JNum 30000)])]\<rparr>"
  by (simp add: refund_eval scenario_collaborators_simps)

lemma order_tenant_scenario: "order_tenant scenario_collaborators scenario_token = Inr (UUID 1)"
  by (simp add: order_tenant_def scenario_token_def scenario_collaborators_def)


subsection \<open>What a handler has committed when it has written\<close>

lemma webhook_committed_cases:
  assumes "req_json req = Some pj" "extract_envelope pj = Inr env"
    "resolve_payment C d env = Inr (Some i)"
    "committed (razorpay_webhook C req d) \<noteq> d"
  shows "webhook_apply d i env pj = Inr (committed (razorpay_webhook C req d))"
  using assms
  by (auto simp: razorpay_webhook_def webhook_reconcile_def failed_def
      split: sum.splits if_splits)

lemma verify_committed_cases:
  assumes "token_tenant C payload = Inr t"
    "first_index (\<lambda>p. pay_id p = vin_payment_id body \<and> pay_tenant_id p = t) (payments d) = Some i"
    "committed (razorpay_verify C body payload d) \<noteq> d"
  shows "\<exists>rp st j fx pay. payment_fetch C (razorpay_payment_id body) = Inr rp \<and>
           py_get rp ''status'' (JStr []) = Inr st \<and>
           pay = (payments d ! i)\<lparr>pay_provider_payment_id := Some (razorpay_payment_id body),
                   pay_status := verify_status st (pay_status (payments d ! i))\<rparr> \<and>
           pay_status pay = CAPTURED \<and>
           first_index (\<lambda>a. appt_id a = pay_appointment_id pay \<and> appt_tenant_id a = t)
             (appointments d) = Some j \<and>
           committed (razorpay_verify C body payload d) =
             committed (verify_captured C body t i j pay rp fx d)"
  using assms
  by (auto simp: razorpay_verify_def verify_fetch_def failed_def Let_def
      split: sum.splits if_splits option.splits)

lemma verify_committed_payments:
  assumes "token_tenant C payload = Inr t"
    "first_index (\<lambda>p. pay_id p = vin_payment_id body \<and> pay_tenant_id p = t) (payments d) = Some i"
    "committed (razorpay_verify C body payload d) \<noteq> d"
  shows "payments (committed (razorpay_verify C body payload d)) ! i =
           (payments d ! i)\<lparr>pay_provider_payment_id := Some (razorpay_payment_id body),
                             pay_status := CAPTURED\<rparr>"
proof -
  from verify_committed_cases [OF assms] obtain rp st j fx pay where
    h: "pay = (payments d ! i)\<lparr>pay_provider_payment_id := Some (razorpay_payment_id body),
                   pay_status := verify_status st (pay_status (payments d ! i))\<rparr>"
       "pay_status pay = CAPTURED"
       "committed (razorpay_verify C body payload d) =
             committed (verify_captured C body t i j pay rp fx d)"
    by blast
  have i: "i < length (payments d)" using first_index_Some [OF assms(2)] by simp
  from verify_captured_committed [of C body t i j pay rp fx d] h(3) assms(3)
  have "payments (committed (razorpay_verify C body payload d)) = (payments d)[i := pay]"
    by auto
  then show ?thesis using i h(1,2) by simp
qed

lemma refund_committed_payments:
  assumes "token_tenant C payload = Inr t"
    "first_index (\<lambda>p. pay_id p = rin_payment_id body \<and> pay_tenant_id p = t) (payments d) = Some i"
    "response (razorpay_refund C body payload d) = Inr r"
  shows "refund_store t i r d = Inr (committed (razorpay_refund C body payload d))"
  using assms
  by (auto simp: razorpay_refund_def failed_def split: sum.splits if_splits option.splits)


lemma refund_store_events:
  assumes "refund_store t i refund d = Inr d'"
  shows "\<exists>ev. payment_events d' = payment_events d @ [ev] \<and>
           ev_event_type ev = ''refund.created''"
  using assms by (auto simp: refund_store_def Let_def bind_e_Inr_iff)

subsection \<open>Checkout signatures\<close>

text \<open>A signature that does not verify never lets checkout verification write.\<close>

lemma unverified_checkout_never_commits:
  assumes "verify_razorpay_checkout_signature C (razorpay_order_id body)
             (razorpay_payment_id body) (razorpay_signature body) (RAZORPAY_KEY_SECRET C)
           \<noteq> Inr True"
  shows "committed (razorpay_verify C body payload d) = d \<and>
         effects (razorpay_verify C body payload d) = [] \<and>
         (\<exists>e. response (razorpay_verify C body payload d) = Inl e)"
  using assms
  by (auto simp: razorpay_verify_def failed_def split: sum.splits option.splits)

text \<open>An ASCII signature that differs from the digest is answered 400.\<close>

lemma forged_ascii_signature_rejected:
  assumes "token_tenant C payload = Inr t"
    and "first_index (\<lambda>p. pay_id p = vin_payment_id body \<and> pay_tenant_id p = t)
           (payments d) = Some i"
    and "pay_provider_order_id (payments d ! i) = razorpay_order_id body"
    and "is_ascii (razorpay_signature body)"
    and "is_ascii (hmac_sha256_hexdigest C (RAZORPAY_KEY_SECRET C)
           (razorpay_order_id body @ ''|'' @ razorpay_payment_id body))"
    and "razorpay_signature body \<noteq> hmac_sha256_hexdigest C (RAZORPAY_KEY_SECRET C)
           (razorpay_order_id body @ ''|'' @ razorpay_payment_id body)"
  shows "razorpay_verify C body payload d =
           \<lparr>response = Inl (HTTP 400 ''Invalid signature''), committed = d, effects = []\<rparr>"
  using assms
  by (auto simp: razorpay_verify_def failed_def verify_razorpay_checkout_signature_def
      compare_digest_def)


section \<open>Claims\<close>

text \<open>
  Claim C1, as stated, fails: the handlers consult no transition graph. A payment captured
  by checkout verification (whose event has no provider event id) and then reached by a
  late \<^verbatim>\<open>authorized\<close> notification goes back from \<^verbatim>\<open>CAPTURED\<close> to \<^verbatim>\<open>AUTHORIZED\<close>, a status
  the graph of the specification does not reach from \<^verbatim>\<open>CAPTURED\<close>.
\<close>

theorem late_authorized_regresses_captured:
  "pay_status (payments (scenario_db scenario_captured PAID [checkout_event]) ! 0) = CAPTURED \<and>
   \<not> spec_reachable CAPTURED AUTHORIZED \<and>
   pay_status (payments (committed (razorpay_webhook scenario_collaborators
       (delivery (payment_notification ''payment.authorized'' ''pay_1'' ''order_abc''
                    ''authorized''))
       (scenario_db scenario_captured PAID [checkout_event]))) ! 0) = AUTHORIZED"
  by (simp add: webhook_eval checkout_event_def)

text \<open>
  Claim C1, amended. Each handler assigns the proposed status whatever the current one is.
  Whenever a webhook commits anything for the payment it resolved, the payment's status
  is the one mapped from the notification's status string (\<^verbatim>\<open>authorized\<close>, \<^verbatim>\<open>captured\<close>,
  \<^verbatim>\<open>failed\<close>, \<^verbatim>\<open>refunded\<close>), and the old one for any other string; whenever checkout
  verification commits anything, the payment's status is \<^verbatim>\<open>CAPTURED\<close>; whenever a refund
  answers with success, the payment's status is \<^verbatim>\<open>REFUNDED\<close>.
\<close>

theorem handlers_assign_status_unconditionally:
  "(req_json req = Some pj \<and> extract_envelope pj = Inr env \<and>
    resolve_payment C d env = Inr (Some i) \<and> committed (razorpay_webhook C req d) \<noteq> d
    \<longrightarrow> pay_status (payments (committed (razorpay_webhook C req d)) ! i) =
          webhook_status (env_status env) (pay_status (payments d ! i)))
   \<and>
   (token_tenant C payload = Inr t \<and>
    first_index (\<lambda>p. pay_id p = vin_payment_id vbody \<and> pay_tenant_id p = t) (payments d) = Some k
    \<and> committed (razorpay_verify C vbody payload d) \<noteq> d
    \<longrightarrow> pay_status (payments (committed (razorpay_verify C vbody payload d)) ! k) = CAPTURED)
   \<and>
   (token_tenant C payload = Inr t \<and>
    first_index (\<lambda>p. pay_id p = rin_payment_id rbody \<and> pay_tenant_id p = t) (payments d) = Some m
    \<and> response (razorpay_refund C rbody payload d) = Inr r
    \<longrightarrow> pay_status (payments (committed (razorpay_refund C rbody payload d)) ! m) = REFUNDED)"
proof (intro conjI impI)
  assume h: "req_json req = Some pj \<and> extract_envelope pj = Inr env \<and>
    resolve_payment C d env = Inr (Some i) \<and> committed (razorpay_webhook C req d) \<noteq> d"
  then have a: "webhook_apply d i env pj = Inr (committed (razorpay_webhook C req d))"
    using webhook_committed_cases by blast
  have i: "i < length (payments d)" using h resolve_payment_Some by blast
  from webhook_apply_payments [OF a] i
  show "pay_status (payments (committed (razorpay_webhook C req d)) ! i) =
          webhook_status (env_status env) (pay_status (payments d ! i))"
    by auto
next
  assume h: "token_tenant C payload = Inr t \<and>
    first_index (\<lambda>p. pay_id p = vin_payment_id vbody \<and> pay_tenant_id p = t) (payments d) = Some k
    \<and> committed (razorpay_verify C vbody payload d) \<noteq> d"
  then show "pay_status (payments (committed (razorpay_verify C vbody payload d)) ! k) = CAPTURED"
    using verify_committed_payments [of C payload t vbody d k] by simp
next
  assume h: "token_tenant C payload = Inr t \<and>
    first_index (\<lambda>p. pay_id p = rin_payment_id rbody \<and> pay_tenant_id p = t) (payments d) = Some m
    \<and> response (razorpay_refund C rbody payload d) = Inr r"
  then have a: "refund_store t m r d = Inr (committed (razorpay_refund C rbody payload d))"
    using refund_committed_payments by blast
  have m: "m < length (payments d)" using h first_index_Some by blast
  from refund_store_payments(1) [OF a] m
  show "pay_status (payments (committed (razorpay_refund C rbody payload d)) ! m) = REFUNDED"
    by simp
qed

text \<open>On the captured payment: a \<^verbatim>\<open>failed\<close> notification, a second verification and a
  refund.\<close>

theorem handlers_assign_status_unconditionally_witness:
  "pay_status (payments (committed (razorpay_webhook scenario_collaborators
       (delivery (payment_notification ''payment.failed'' ''pay_1'' ''order_abc'' ''failed''))
       (scenario_db scenario_captured PAID [checkout_event]))) ! 0) = FAILED \<and>
   pay_status (payments (committed (razorpay_verify scenario_collaborators scenario_verify_body
       scenario_token (scenario_db scenario_captured PAID [checkout_event]))) ! 0) = CAPTURED \<and>
   pay_status (payments (committed (razorpay_refund scenario_collaborators scenario_refund_body
       scenario_token (scenario_db scenario_captured PAID [checkout_event]))) ! 0) = REFUNDED"
proof -
  let ?d = "scenario_db scenario_captured PAID [checkout_event]"
  let ?pj = "payment_notification ''payment.failed'' ''pay_1'' ''order_abc'' ''failed''"
  have w: "committed (razorpay_webhook scenario_collaborators (delivery ?pj) ?d) \<noteq> ?d"
    by (simp add: webhook_eval checkout_event_def)
  have v: "committed (razorpay_verify scenario_collaborators scenario_verify_body
             scenario_token ?d) \<noteq> ?d"
    by (simp add: verify_eval scenario_collaborators_simps)
  have r: "response (razorpay_refund scenario_collaborators scenario_refund_body
             scenario_token ?d) =
           Inr (JObj [(''id'', JStr ''rfnd_1''), (''payment_id'', JStr ''pay_1'')])"
    by (simp add: scenario_D)
  have res: "resolve_payment scenario_collaborators ?d
       \<lparr>env_event_type = JStr ''payment.failed'', env_event_id = JStr ''pay_1'',
        env_provider_order_id = JStr ''order_abc'', env_provider_payment_id = JStr ''pay_1'',
        env_status = JStr ''failed'', env_tenant_id_str = JNull\<rparr> = Inr (Some 0)"
    by (simp add: resolve_payment_def lookup_by_hint_def scenario_db_def scenario_captured_def
        scenario_payment_def)
  have f: "first_index (\<lambda>p. pay_id p = UUID 10 \<and> pay_tenant_id p = UUID 1) (payments ?d) = Some 0"
    by (simp add: scenario_db_def scenario_captured_def scenario_payment_def)
  show ?thesis
    using handlers_assign_status_unconditionally
      [where req = "delivery ?pj" and pj = ?pj and C = scenario_collaborators and d = ?d
         and env = "\<lparr>env_event_type = JStr ''payment.failed'', env_event_id = JStr ''pay_1'',
                      env_provider_order_id = JStr ''order_abc'',
                      env_provider_payment_id = JStr ''pay_1'',
                      env_status = JStr ''failed'', env_tenant_id_str = JNull\<rparr>"
         and i = 0 and payload = scenario_token and t = "UUID 1"
         and vbody = scenario_verify_body and k = 0
         and rbody = scenario_refund_body and m = 0
         and r = "JObj [(''id'', JStr ''rfnd_1''), (''payment_id'', JStr ''pay_1'')]"]
      w v r res f
    by (simp add: delivery_simps extract_payment_notification token_tenant_scenario
        webhook_status_def scenario_verify_body_def scenario_refund_body_def
        scenario_db_def scenario_captured_def scenario_payment_def)
qed

text \<open>
  Claim C2, as stated, fails: the refund handler does not read the payment's status. A
  payment that an \<^verbatim>\<open>authorized\<close> notification left \<^verbatim>\<open>AUTHORIZED\<close> with its provider
  payment id set is refunded: the provider is called, the status becomes \<^verbatim>\<open>REFUNDED\<close>
  and a \<^verbatim>\<open>refund.created\<close> event is appended.
\<close>

theorem refund_of_authorized_goes_through:
  "pay_status (payments (scenario_db (scenario_captured\<lparr>pay_status := AUTHORIZED\<rparr>) UNPAID
       [webhook_event ''payment.authorized'' ''pay_1'' ''order_abc'' ''authorized'']) ! 0)
     = AUTHORIZED \<and>
   razorpay_refund scenario_collaborators scenario_refund_body scenario_token
     (scenario_db (scenario_captured\<lparr>pay_status := AUTHORIZED\<rparr>) UNPAID
       [webhook_event ''payment.authorized'' ''pay_1'' ''order_abc'' ''authorized'']) =
   \<lparr>response = Inr (JObj [(''id'', JStr ''rfnd_1''), (''payment_id'', JStr ''pay_1'')]),
    committed = scenario_db (scenario_captured\<lparr>pay_status := REFUNDED\<rparr>) APPT_REFUNDED
       [webhook_event ''payment.authorized'' ''pay_1'' ''order_abc'' ''authorized'',
        refund_event],
    effects = [PaymentRefund ''pay_1'' (JObj [(''amount'', JNum 30000)])]\<rparr>"
  by (simp add: refund_eval scenario_collaborators_simps)

text \<open>
  Claim C2, amended. The guard of the refund handler is the provider payment id. A refund
  request for a Razorpay payment whose \<^verbatim>\<open>provider_payment_id\<close> is unset or empty (as it
  is from order creation until a webhook or a committed verification sets it) is rejected
  with HTTP 400, and the payment's status is unchanged, no event is produced and the
  provider is not called. A refund that answers with success found the id set; it leaves
  the status \<^verbatim>\<open>REFUNDED\<close> and appends one \<^verbatim>\<open>refund.created\<close> event, whatever the status
  was.
\<close>

theorem refund_guard_is_provider_payment_id:
  "(token_tenant C payload = Inr t \<and>
    first_index (\<lambda>p. pay_id p = rin_payment_id body \<and> pay_tenant_id p = t) (payments d) = Some i \<and>
    pay_provider (payments d ! i) = RAZORPAY \<and>
    (pay_provider_payment_id (payments d ! i) = None \<or>
     pay_provider_payment_id (payments d ! i) = Some [])
    \<longrightarrow> razorpay_refund C body payload d =
          \<lparr>response = Inl (HTTP 400 ''Payment not captured / missing provider_payment_id''),
           committed = d, effects = []\<rparr>)
   \<and>
   (token_tenant C payload = Inr t \<and>
    first_index (\<lambda>p. pay_id p = rin_payment_id body \<and> pay_tenant_id p = t) (payments d) = Some i \<and>
    response (razorpay_refund C body payload d) = Inr r
    \<longrightarrow> (\<exists>pid. pay_provider_payment_id (payments d ! i) = Some pid \<and> pid \<noteq> []) \<and>
        pay_status (payments (committed (razorpay_refund C body payload d)) ! i) = REFUNDED \<and>
        (\<exists>ev. payment_events (committed (razorpay_refund C body payload d)) =
                 payment_events d @ [ev] \<and> ev_event_type ev = ''refund.created''))"
proof (intro conjI impI)
  assume "token_tenant C payload = Inr t \<and>
    first_index (\<lambda>p. pay_id p = rin_payment_id body \<and> pay_tenant_id p = t) (payments d) = Some i \<and>
    pay_provider (payments d ! i) = RAZORPAY \<and>
    (pay_provider_payment_id (payments d ! i) = None \<or>
     pay_provider_payment_id (payments d ! i) = Some [])"
  then show "razorpay_refund C body payload d =
          \<lparr>response = Inl (HTTP 400 ''Payment not captured / missing provider_payment_id''),
           committed = d, effects = []\<rparr>"
    by (auto simp: razorpay_refund_def failed_def)
next
  assume h: "token_tenant C payload = Inr t \<and>
    first_index (\<lambda>p. pay_id p = rin_payment_id body \<and> pay_tenant_id p = t) (payments d) = Some i \<and>
    response (razorpay_refund C body payload d) = Inr r"
  then show "\<exists>pid. pay_provider_payment_id (payments d ! i) = Some pid \<and> pid \<noteq> []"
    by (auto simp: razorpay_refund_def failed_def split: if_splits option.splits sum.splits)
next
  assume h: "token_tenant C payload = Inr t \<and>
    first_index (\<lambda>p. pay_id p = rin_payment_id body \<and> pay_tenant_id p = t) (payments d) = Some i \<and>
    response (razorpay_refund C body payload d) = Inr r"
  then have a: "refund_store t i r d = Inr (committed (razorpay_refund C body payload d))"
    using refund_committed_payments by blast
  have i: "i < length (payments d)" using h first_index_Some by blast
  from refund_store_payments(1) [OF a] i
  show "pay_status (payments (committed (razorpay_refund C body payload d)) ! i) = REFUNDED"
    by simp
next
  assume h: "token_tenant C payload = Inr t \<and>
    first_index (\<lambda>p. pay_id p = rin_payment_id body \<and> pay_tenant_id p = t) (payments d) = Some i \<and>
    response (razorpay_refund C body payload d) = Inr r"
  then have a: "refund_store t i r d = Inr (committed (razorpay_refund C body payload d))"
    using refund_committed_payments by blast
  then show "\<exists>ev. payment_events (committed (razorpay_refund C body payload d)) =
                 payment_events d @ [ev] \<and> ev_event_type ev = ''refund.created''"
    by (rule refund_store_events)
qed

text \<open>The created payment of Scenario A is rejected; Scenario D goes through.\<close>

theorem refund_guard_is_provider_payment_id_witness:
  "razorpay_refund scenario_collaborators scenario_refund_body scenario_token
     (scenario_db scenario_payment UNPAID []) =
   \<lparr>response = Inl (HTTP 400 ''Payment not captured / missing provider_payment_id''),
    committed = scenario_db scenario_payment UNPAID [], effects = []\<rparr> \<and>
   pay_status (payments (committed (razorpay_refund scenario_collaborators scenario_refund_body
     scenario_token (scenario_db scenario_captured PAID []))) ! 0) = REFUNDED \<and>
   (\<exists>ev. payment_events (committed (razorpay_refund scenario_collaborators scenario_refund_body
            scenario_token (scenario_db scenario_captured PAID []))) =
          payment_events (scenario_db scenario_captured PAID []) @ [ev] \<and>
          ev_event_type ev = ''refund.created'')"
proof -
  let ?created = "scenario_db scenario_payment UNPAID []"
  let ?captured = "scenario_db scenario_captured PAID []"
  let ?r = "JObj [(''id'', JStr ''rfnd_1''), (''payment_id'', JStr ''pay_1'')]"
  have p1: "token_tenant scenario_collaborators scenario_token = Inr (UUID 1) \<and>
      first_index (\<lambda>p. pay_id p = rin_payment_id scenario_refund_body \<and>
                       pay_tenant_id p = UUID 1) (payments ?created) = Some 0 \<and>
      pay_provider (payments ?created ! 0) = RAZORPAY \<and>
      (pay_provider_payment_id (payments ?created ! 0) = None \<or>
       pay_provider_payment_id (payments ?created ! 0) = Some [])"
    by (simp add: token_tenant_scenario scenario_db_def scenario_payment_def
        scenario_refund_body_def)
  have p2: "token_tenant scenario_collaborators scenario_token = Inr (UUID 1) \<and>
      first_index (\<lambda>p. pay_id p = rin_payment_id scenario_refund_body \<and>
                       pay_tenant_id p = UUID 1) (payments ?captured) = Some 0 \<and>
      response (razorpay_refund scenario_collaborators scenario_refund_body scenario_token
                  ?captured) = Inr ?r"
  proof -
    have "response (razorpay_refund scenario_collaborators scenario_refund_body scenario_token
                      ?captured) = Inr ?r"
      using scenario_D [of "[]"] by simp
    moreover have "first_index (\<lambda>p. pay_id p = rin_payment_id scenario_refund_body \<and>
                       pay_tenant_id p = UUID 1) (payments ?captured) = Some 0"
      by (simp add: scenario_db_def scenario_payment_def scenario_captured_def
          scenario_refund_body_def)
    ultimately show ?thesis by (simp add: token_tenant_scenario)
  qed
  from refund_guard_is_provider_payment_id
         [where C = scenario_collaborators and d = ?created, THEN conjunct1, rule_format,
          OF p1]
       refund_guard_is_provider_payment_id
         [where C = scenario_collaborators and d = ?captured, THEN conjunct2, rule_format,
          OF p2]
  show ?thesis by blast
qed

text \<open>
  Claim C3. An authenticated webhook that carries a provider event id, resolves to a
  payment, and finds a stored event with the payment's tenant id and that provider
  event id, is answered with success and changes nothing: no event is appended, and
  the payment and the appointment keep their status.
\<close>

theorem webhook_duplicate_event_is_noop:
  assumes "req_signature req \<noteq> []"
    and "verify_razorpay_webhook_signature C (req_raw req) (req_signature req)
           (RAZORPAY_WEBHOOK_SECRET C) = Inr True"
    and "req_json req = Some payload_json"
    and "extract_envelope payload_json = Inr env"
    and "env_event_id env = JStr event_id" and "event_id \<noteq> []"
    and "resolve_payment C d env = Inr (Some i)"
    and "\<exists>ev \<in> set (payment_events d).
           ev_tenant_id ev = pay_tenant_id (payments d ! i) \<and>
           ev_provider_event_id ev = Some event_id"
  shows "razorpay_webhook C req d = \<lparr>response = Inr Success, committed = d, effects = []\<rparr>"
proof -
  have "event_exists d (pay_tenant_id (payments d ! i)) (env_event_id env) = Inr True"
    using assms(5,6,8) by (simp add: event_exists_def list_ex_iff)
  then show ?thesis
    using assms(1-4,7) by (simp add: razorpay_webhook_def webhook_reconcile_def)
qed

text \<open>Scenario B: the notification of Scenario A delivered a second time.\<close>

theorem webhook_duplicate_event_is_noop_witness:
  "razorpay_webhook scenario_collaborators
     (delivery (payment_notification ''payment.captured'' ''pay_1'' ''order_abc'' ''captured''))
     (scenario_db scenario_captured PAID
        [webhook_event ''payment.captured'' ''pay_1'' ''order_abc'' ''captured'']) =
   \<lparr>response = Inr Success,
    committed =
      scenario_db scenario_captured PAID
        [webhook_event ''payment.captured'' ''pay_1'' ''order_abc'' ''captured''],
    effects = []\<rparr>"
  using webhook_duplicate_event_is_noop
    [where req = "delivery (payment_notification ''payment.captured'' ''pay_1''
                    ''order_abc'' ''captured'')"
       and C = scenario_collaborators
       and payload_json = "payment_notification ''payment.captured'' ''pay_1''
                    ''order_abc'' ''captured''"
       and env = "\<lparr>env_event_type = JStr ''payment.captured'', env_event_id = JStr ''pay_1'',
                    env_provider_order_id = JStr ''order_abc'',
                    env_provider_payment_id = JStr ''pay_1'',
                    env_status = JStr ''captured'', env_tenant_id_str = JNull\<rparr>"
       and event_id = "''pay_1''" and i = 0
       and d = "scenario_db scenario_captured PAID
                  [webhook_event ''payment.captured'' ''pay_1'' ''order_abc'' ''captured'']"]
  by (simp add: delivery_authentic delivery_simps extract_payment_notification
      resolve_payment_def lookup_by_hint_def scenario_db_def scenario_payment_def scenario_captured_def
      webhook_event_def scenario_order_event_def)

text \<open>
  Claim C4 on a signature that is not ASCII. The claim wants every checkout verification
  whose signature is not the digest rejected with an authentication error, the payment's
  status untouched. Here the client sends the one-character signature U+00E9:
  \<^verbatim>\<open>hmac.compare_digest\<close> raises \<^verbatim>\<open>TypeError\<close> on a \<^verbatim>\<open>str\<close> that is not ASCII, nothing
  catches it, and the request ends in that exception instead of the 400 of line 245.
  Nothing is written (\<open>unverified_checkout_never_commits\<close>), and an ASCII signature that
  differs from the digest is answered 400 (\<open>forged_ascii_signature_rejected\<close>).
\<close>

theorem non_ascii_signature_raises:
  "razorpay_verify scenario_collaborators
     (scenario_verify_body\<lparr>razorpay_signature := [CHR 0xE9]\<rparr>) scenario_token
     (scenario_db scenario_payment UNPAID []) =
   \<lparr>response = Inl TypeError, committed = scenario_db scenario_payment UNPAID [],
    effects = []\<rparr>"
  by (simp add: razorpay_verify_def verify_razorpay_checkout_signature_def compare_digest_def
      is_ascii_def token_tenant_scenario scenario_verify_body_def scenario_db_def
      scenario_payment_def failed_def)


text \<open>
  Claim C5. An authenticated webhook whose notification is read without error and whose
  extracted provider order id is the id of no stored payment (so both the lookup by
  tenant hint and the fallback by order id miss) is answered with success, and nothing
  is written: the committed rows are the rows before, and no event is appended.
\<close>

theorem webhook_unmatched_order_is_noop:
  assumes "req_signature req \<noteq> []"
    and "verify_razorpay_webhook_signature C (req_raw req) (req_signature req)
           (RAZORPAY_WEBHOOK_SECRET C) = Inr True"
    and "req_json req = Some payload_json"
    and "extract_envelope payload_json = Inr env"
    and "env_provider_order_id env = JStr order_id"
    and "\<forall>p \<in> set (payments d). pay_provider_order_id p \<noteq> order_id"
  shows "razorpay_webhook C req d = \<lparr>response = Inr Success, committed = d, effects = []\<rparr>"
proof -
  have "lookup_by_hint C d env = None"
    using assms(5,6) by (intro lookup_by_hint_miss) auto
  moreover have "first_index (\<lambda>p. pay_provider_order_id p = order_id) (payments d) = None"
    using assms(6) by (simp add: first_index_None)
  ultimately have "resolve_payment C d env = Inr None"
    using assms(5) by (simp add: resolve_payment_def)
  then show ?thesis
    using assms(1-4) by (simp add: razorpay_webhook_def webhook_reconcile_def)
qed

text \<open>Scenario C: the order id \<^verbatim>\<open>order_zzz\<close> matches no payment.\<close>

theorem webhook_unmatched_order_is_noop_witness:
  "razorpay_webhook scenario_collaborators
     (delivery (payment_notification ''payment.captured'' ''pay_9'' ''order_zzz'' ''captured''))
     (scenario_db scenario_payment UNPAID []) =
   \<lparr>response = Inr Success, committed = scenario_db scenario_payment UNPAID [], effects = []\<rparr>"
  using webhook_unmatched_order_is_noop
    [where req = "delivery (payment_notification ''payment.captured'' ''pay_9''
                    ''order_zzz'' ''captured'')"
       and C = scenario_collaborators
       and payload_json = "payment_notification ''payment.captured'' ''pay_9''
                    ''order_zzz'' ''captured''"
       and env = "\<lparr>env_event_type = JStr ''payment.captured'', env_event_id = JStr ''pay_9'',
                    env_provider_order_id = JStr ''order_zzz'',
                    env_provider_payment_id = JStr ''pay_9'',
                    env_status = JStr ''captured'', env_tenant_id_str = JNull\<rparr>"
       and order_id = "''order_zzz''"
       and d = "scenario_db scenario_payment UNPAID []"]
  by (simp add: delivery_authentic delivery_simps extract_payment_notification
      scenario_db_def scenario_payment_def scenario_captured_def)

text \<open>
  Claim C6, as stated, fails: the webhook does not test whether a provider payment id is
  stored. On the payment captured as \<^verbatim>\<open>pay_1\<close>, a notification about a second payment
  \<^verbatim>\<open>pay_2\<close> of the same order replaces the stored id.
\<close>

theorem webhook_overwrites_provider_payment_id:
  "pay_provider_payment_id (payments (scenario_db scenario_captured PAID [checkout_event]) ! 0)
     = Some ''pay_1'' \<and>
   pay_provider_payment_id (payments (committed (razorpay_webhook scenario_collaborators
       (delivery (payment_notification ''payment.failed'' ''pay_2'' ''order_abc'' ''failed''))
       (scenario_db scenario_captured PAID [checkout_event]))) ! 0) = Some ''pay_2''"
  by (simp add: webhook_eval checkout_event_def)


text \<open>
  Claim C6, amended. The provider payment id is not kept once set. Whenever a webhook
  commits anything for the payment it resolved, the stored id is the one extracted from
  the notification if one was extracted (whatever was stored before), and the old one if
  none was; whenever checkout verification commits anything, the stored id is the
  \<^verbatim>\<open>razorpay_payment_id\<close> the client sent.
\<close>

theorem provider_payment_id_is_overwritten:
  "(req_json req = Some pj \<and> extract_envelope pj = Inr env \<and>
    resolve_payment C d env = Inr (Some i) \<and> env_provider_payment_id env = JStr s \<and>
    committed (razorpay_webhook C req d) \<noteq> d
    \<longrightarrow> pay_provider_payment_id (payments (committed (razorpay_webhook C req d)) ! i) =
          (if s = [] then pay_provider_payment_id (payments d ! i) else Some s))
   \<and>
   (token_tenant C payload = Inr t \<and>
    first_index (\<lambda>p. pay_id p = vin_payment_id vbody \<and> pay_tenant_id p = t) (payments d) = Some k
    \<and> committed (razorpay_verify C vbody payload d) \<noteq> d
    \<longrightarrow> pay_provider_payment_id (payments (committed (razorpay_verify C vbody payload d)) ! k) =
          Some (razorpay_payment_id vbody))"
proof (intro conjI impI)
  assume h: "req_json req = Some pj \<and> extract_envelope pj = Inr env \<and>
    resolve_payment C d env = Inr (Some i) \<and> env_provider_payment_id env = JStr s \<and>
    committed (razorpay_webhook C req d) \<noteq> d"
  then have a: "webhook_apply d i env pj = Inr (committed (razorpay_webhook C req d))"
    using webhook_committed_cases by blast
  have i: "i < length (payments d)" using h resolve_payment_Some by blast
  from webhook_apply_payments [OF a] i h
  show "pay_provider_payment_id (payments (committed (razorpay_webhook C req d)) ! i) =
          (if s = [] then pay_provider_payment_id (payments d ! i) else Some s)"
    by (auto simp: py_or_def)
next
  assume h: "token_tenant C payload = Inr t \<and>
    first_index (\<lambda>p. pay_id p = vin_payment_id vbody \<and> pay_tenant_id p = t) (payments d) = Some k
    \<and> committed (razorpay_verify C vbody payload d) \<noteq> d"
  then show "pay_provider_payment_id (payments (committed (razorpay_verify C vbody payload d)) ! k) =
          Some (razorpay_payment_id vbody)"
    using verify_committed_payments [of C payload t vbody d k] by simp
qed


text \<open>A notification about \<^verbatim>\<open>pay_2\<close> on the payment stored as \<^verbatim>\<open>pay_1\<close>, and a
  verification of \<^verbatim>\<open>pay_1\<close> on a payment stored as \<^verbatim>\<open>pay_0\<close>.\<close>

theorem provider_payment_id_is_overwritten_witness:
  "pay_provider_payment_id (payments (committed (razorpay_webhook scenario_collaborators
       (delivery (payment_notification ''payment.captured'' ''pay_2'' ''order_abc'' ''captured''))
       (scenario_db scenario_captured PAID [checkout_event]))) ! 0) = Some ''pay_2'' \<and>
   pay_provider_payment_id (payments (committed (razorpay_verify scenario_collaborators
       scenario_verify_body scenario_token
       (scenario_db (scenario_captured\<lparr>pay_provider_payment_id := Some ''pay_0''\<rparr>) PAID
          [checkout_event]))) ! 0) = Some ''pay_1''"
proof -
  let ?d = "scenario_db scenario_captured PAID [checkout_event]"
  let ?d2 = "scenario_db (scenario_captured\<lparr>pay_provider_payment_id := Some ''pay_0''\<rparr>) PAID
          [checkout_event]"
  let ?pj = "payment_notification ''payment.captured'' ''pay_2'' ''order_abc'' ''captured''"
  let ?env = "\<lparr>env_event_type = JStr ''payment.captured'', env_event_id = JStr ''pay_2'',
        env_provider_order_id = JStr ''order_abc'', env_provider_payment_id = JStr ''pay_2'',
        env_status = JStr ''captured'', env_tenant_id_str = JNull\<rparr>"
  have w: "committed (razorpay_webhook scenario_collaborators (delivery ?pj) ?d) \<noteq> ?d"
    by (simp add: webhook_eval checkout_event_def)
  have res: "resolve_payment scenario_collaborators ?d ?env = Inr (Some 0)"
    by (simp add: resolve_payment_def lookup_by_hint_def scenario_db_def scenario_captured_def
        scenario_payment_def)
  have p1: "req_json (delivery ?pj) = Some ?pj \<and> extract_envelope ?pj = Inr ?env \<and>
      resolve_payment scenario_collaborators ?d ?env = Inr (Some 0) \<and>
      env_provider_payment_id ?env = JStr ''pay_2'' \<and>
      committed (razorpay_webhook scenario_collaborators (delivery ?pj) ?d) \<noteq> ?d"
    using w res by (simp add: delivery_simps extract_payment_notification)
  have v: "committed (razorpay_verify scenario_collaborators scenario_verify_body
             scenario_token ?d2) \<noteq> ?d2"
    by (simp add: verify_eval scenario_collaborators_simps)
  have f: "first_index (\<lambda>p. pay_id p = vin_payment_id scenario_verify_body \<and>
             pay_tenant_id p = UUID 1) (payments ?d2) = Some 0"
    by (simp add: scenario_db_def scenario_captured_def scenario_payment_def
        scenario_verify_body_def)
  have p2: "token_tenant scenario_collaborators scenario_token = Inr (UUID 1) \<and>
      first_index (\<lambda>p. pay_id p = vin_payment_id scenario_verify_body \<and>
             pay_tenant_id p = UUID 1) (payments ?d2) = Some 0 \<and>
      committed (razorpay_verify scenario_collaborators scenario_verify_body
             scenario_token ?d2) \<noteq> ?d2"
    using v f by (simp add: token_tenant_scenario)
  from provider_payment_id_is_overwritten
         [where C = scenario_collaborators and d = ?d, THEN conjunct1, rule_format, OF p1]
       provider_payment_id_is_overwritten
         [where C = scenario_collaborators and d = ?d2, THEN conjunct2, rule_format, OF p2]
  show ?thesis by (simp add: scenario_verify_body_def)
qed

text \<open>
  Claim C7, as stated, fails: when checkout verification reaches the captured branch,
  nothing has been committed yet, and receipt rendering and the enqueue come before
  \<^verbatim>\<open>db.add\<close> and \<^verbatim>\<open>db.commit\<close> with nothing to catch what they raise. With a task queue
  that raises, the request ends in that error and the stored payment is still \<^verbatim>\<open>CREATED\<close>
  with no \<^verbatim>\<open>checkout.verified\<close> event.
\<close>

theorem failed_enqueue_loses_capture:
  "razorpay_verify raising_task_queue scenario_verify_body scenario_token
     (scenario_db scenario_payment UNPAID []) =
   \<lparr>response = Inl CollaboratorError,
    committed = scenario_db scenario_payment UNPAID [],
    effects = [PaymentFetch ''pay_1'', ReceiptRendered ''%PDF'']\<rparr> \<and>
   pay_status (payments (scenario_db scenario_payment UNPAID []) ! 0) = CREATED"
  by (simp add: razorpay_verify_def verify_fetch_def verify_captured_def verify_status_def
      token_tenant_def scenario_token_def verify_razorpay_checkout_signature_def
      compare_digest_def is_ascii_def scenario_verify_body_def scenario_db_def
      scenario_payment_def scenario_appointment_def failed_def scenario_collaborators_def
      raising_task_queue_def)


text \<open>
  Claim C7, amended. In checkout verification, on the branch of a captured payment whose
  appointment is found, receipt rendering and the enqueue run before the
  \<^verbatim>\<open>checkout.verified\<close> event is added and before the only commit. If either raises, the
  request ends in that error and nothing is committed. When both return, the request
  answers \<^verbatim>\<open>CAPTURED\<close>, and the status \<^verbatim>\<open>CAPTURED\<close>, the appointment's \<^verbatim>\<open>PAID\<close> and one
  \<^verbatim>\<open>checkout.verified\<close> event are committed together.
\<close>

theorem side_effects_precede_commit:
  assumes "token_tenant C payload = Inr t"
    and "first_index (\<lambda>p. pay_id p = vin_payment_id body \<and> pay_tenant_id p = t)
           (payments d) = Some i"
    and "pay_provider_order_id (payments d ! i) = razorpay_order_id body"
    and "verify_razorpay_checkout_signature C (razorpay_order_id body)
           (razorpay_payment_id body) (razorpay_signature body) (RAZORPAY_KEY_SECRET C)
         = Inr True"
    and "payment_fetch C (razorpay_payment_id body) = Inr rp_payment"
    and "py_get rp_payment ''status'' (JStr []) = Inr rp_status"
    and "verify_status rp_status (pay_status (payments d ! i)) = CAPTURED"
    and "first_index (\<lambda>a. appt_id a = pay_appointment_id (payments d ! i) \<and>
                           appt_tenant_id a = t) (appointments d) = Some j"
  shows
    "(generate_receipt_pdf C (uuid_str C (pay_id (payments d ! i))) ''Customer''
        (pay_amount (payments d ! i)) (pay_currency (payments d ! i)) = Inl e
      \<longrightarrow> response (razorpay_verify C body payload d) = Inl e \<and>
          committed (razorpay_verify C body payload d) = d)
     \<and>
     (generate_receipt_pdf C (uuid_str C (pay_id (payments d ! i))) ''Customer''
        (pay_amount (payments d ! i)) (pay_currency (payments d ! i)) = Inr pdf_bytes \<and>
      send_booking_email_delay C ''customer@email.com'' ''Payment Receipt''
        ''Your payment was successful.'' pdf_bytes = Inl e
      \<longrightarrow> response (razorpay_verify C body payload d) = Inl e \<and>
          committed (razorpay_verify C body payload d) = d)
     \<and>
     (generate_receipt_pdf C (uuid_str C (pay_id (payments d ! i))) ''Customer''
        (pay_amount (payments d ! i)) (pay_currency (payments d ! i)) = Inr pdf_bytes \<and>
      send_booking_email_delay C ''customer@email.com'' ''Payment Receipt''
        ''Your payment was successful.'' pdf_bytes = Inr ()
      \<longrightarrow> response (razorpay_verify C body payload d) = Inr CAPTURED \<and>
          pay_status (payments (committed (razorpay_verify C body payload d)) ! i) = CAPTURED \<and>
          appt_payment_status (appointments (committed (razorpay_verify C body payload d)) ! j)
            = PAID \<and>
          (\<exists>ev. payment_events (committed (razorpay_verify C body payload d)) =
                  payment_events d @ [ev] \<and> ev_event_type ev = ''checkout.verified''))"
proof -
  have i: "i < length (payments d)" using first_index_Some [OF assms(2)] by simp
  have j: "j < length (appointments d)" using first_index_Some [OF assms(8)] by simp
  let ?pay = "(payments d ! i)\<lparr>pay_provider_payment_id := Some (razorpay_payment_id body),
                 pay_status := CAPTURED\<rparr>"
  have eq: "razorpay_verify C body payload d =
        verify_captured C body t i j ?pay rp_payment [PaymentFetch (razorpay_payment_id body)] d"
    using assms by (simp add: razorpay_verify_def verify_fetch_def)
  show ?thesis
    unfolding eq using i j
    by (auto simp: verify_captured_def failed_def)
qed



text \<open>The verification of Scenario A's payment with a renderer that raises, with a task
  queue that raises, and with both returning.\<close>

theorem side_effects_precede_commit_witness:
  "(let r = razorpay_verify raising_renderer scenario_verify_body scenario_token
              (scenario_db scenario_payment UNPAID [])
    in response r = Inl CollaboratorError \<and>
       committed r = scenario_db scenario_payment UNPAID []) \<and>
   (let r = razorpay_verify raising_task_queue scenario_verify_body scenario_token
              (scenario_db scenario_payment UNPAID [])
    in response r = Inl CollaboratorError \<and>
       committed r = scenario_db scenario_payment UNPAID []) \<and>
   (let r = razorpay_verify scenario_collaborators scenario_verify_body scenario_token
              (scenario_db scenario_payment UNPAID [])
    in response r = Inr CAPTURED \<and>
       pay_status (payments (committed r) ! 0) = CAPTURED \<and>
       appt_payment_status (appointments (committed r) ! 0) = PAID \<and>
       (\<exists>ev. payment_events (committed r) =
               payment_events (scenario_db scenario_payment UNPAID []) @ [ev] \<and>
               ev_event_type ev = ''checkout.verified''))"
proof -
  let ?d = "scenario_db scenario_payment UNPAID []"
  let ?rp = "JObj [(''id'', JStr ''pay_1''), (''status'', JStr ''captured'')]"
  define C where "C g s = scenario_collaborators
      \<lparr>generate_receipt_pdf := g, send_booking_email_delay := s\<rparr>" for g s
  have same: "C (generate_receipt_pdf scenario_collaborators)
                (send_booking_email_delay scenario_collaborators) = scenario_collaborators"
    by (simp add: C_def)
  have a1: "token_tenant (C g s) scenario_token = Inr (UUID 1)" for g s
    by (simp add: C_def token_tenant_def scenario_token_def scenario_collaborators_def)
  have a2: "first_index (\<lambda>p. pay_id p = vin_payment_id scenario_verify_body \<and>
              pay_tenant_id p = UUID 1) (payments ?d) = Some 0"
    by (simp add: scenario_db_def scenario_payment_def scenario_verify_body_def)
  have a3: "pay_provider_order_id (payments ?d ! 0) = razorpay_order_id scenario_verify_body"
    by (simp add: scenario_db_def scenario_payment_def scenario_verify_body_def)
  have a4: "verify_razorpay_checkout_signature (C g s) (razorpay_order_id scenario_verify_body)
           (razorpay_payment_id scenario_verify_body) (razorpay_signature scenario_verify_body)
           (RAZORPAY_KEY_SECRET (C g s)) = Inr True" for g s
    by (simp add: C_def verify_razorpay_checkout_signature_def compare_digest_def is_ascii_def
        scenario_verify_body_def scenario_collaborators_def)
  have a5: "payment_fetch (C g s) (razorpay_payment_id scenario_verify_body) = Inr ?rp" for g s
    by (simp add: C_def scenario_collaborators_def scenario_verify_body_def)
  have a6: "py_get ?rp ''status'' (JStr []) = Inr (JStr ''captured'')" by simp
  have a7: "verify_status (JStr ''captured'') (pay_status (payments ?d ! 0)) = CAPTURED"
    by (simp add: verify_status_def)
  have a8: "first_index (\<lambda>a. appt_id a = pay_appointment_id (payments ?d ! 0) \<and>
              appt_tenant_id a = UUID 1) (appointments ?d) = Some 0"
    by (simp add: scenario_db_def scenario_payment_def scenario_appointment_def)
  have g: "generate_receipt_pdf (C g s) = g" and s: "send_booking_email_delay (C g s) = s"
    for g s
    by (simp_all add: C_def)
  have 1: "response (razorpay_verify (C (\<lambda>a b c d. Inl CollaboratorError)
                (send_booking_email_delay scenario_collaborators))
              scenario_verify_body scenario_token ?d) = Inl CollaboratorError \<and>
           committed (razorpay_verify (C (\<lambda>a b c d. Inl CollaboratorError)
                (send_booking_email_delay scenario_collaborators))
              scenario_verify_body scenario_token ?d) = ?d"
    by (rule side_effects_precede_commit
          [where C = "C (\<lambda>a b c d. Inl CollaboratorError)
                        (send_booking_email_delay scenario_collaborators)",
           OF a1 a2 a3 a4 a5 a6 a7 a8, THEN conjunct1, rule_format])
       (simp add: g)
  have 2: "response (razorpay_verify (C (generate_receipt_pdf scenario_collaborators)
                (\<lambda>a b c d. Inl CollaboratorError))
              scenario_verify_body scenario_token ?d) = Inl CollaboratorError \<and>
           committed (razorpay_verify (C (generate_receipt_pdf scenario_collaborators)
                (\<lambda>a b c d. Inl CollaboratorError))
              scenario_verify_body scenario_token ?d) = ?d"
    by (rule side_effects_precede_commit
          [where C = "C (generate_receipt_pdf scenario_collaborators)
                        (\<lambda>a b c d. Inl CollaboratorError)"
             and pdf_bytes = "''%PDF''",
           OF a1 a2 a3 a4 a5 a6 a7 a8, THEN conjunct2, THEN conjunct1, rule_format])
       (simp add: g s scenario_collaborators_def)
  have 3: "response (razorpay_verify scenario_collaborators
              scenario_verify_body scenario_token ?d) = Inr CAPTURED \<and>
          pay_status (payments (committed (razorpay_verify scenario_collaborators
              scenario_verify_body scenario_token ?d)) ! 0) = CAPTURED \<and>
          appt_payment_status (appointments (committed (razorpay_verify scenario_collaborators
              scenario_verify_body scenario_token ?d)) ! 0) = PAID \<and>
          (\<exists>ev. payment_events (committed (razorpay_verify scenario_collaborators
              scenario_verify_body scenario_token ?d)) =
                  payment_events ?d @ [ev] \<and> ev_event_type ev = ''checkout.verified'')"
    using side_effects_precede_commit
          [where C = "C (generate_receipt_pdf scenario_collaborators)
                        (send_booking_email_delay scenario_collaborators)"
             and pdf_bytes = "''%PDF''",
           OF a1 a2 a3 a4 a5 a6 a7 a8, THEN conjunct2, THEN conjunct2, rule_format]
    unfolding same by (simp add: scenario_collaborators_def)
  show ?thesis
    using 1 2 3 by (simp add: C_def Let_def raising_renderer_def raising_task_queue_def)
qed

text \<open>
  Claim C8. The amount sent to the provider is \<^verbatim>\<open>int(round(float(amount) * 100))\<close>, in
  binary64 arithmetic with Python's rounding of halves to even. Order creation that
  reaches the provider sends the order request with that number as its \<^verbatim>\<open>amount\<close>; a
  partial refund that reaches the provider sends the payload \<^verbatim>\<open>{"amount": n}\<close> with that
  number. The number is the amount in paisa: for every amount with two decimals,
  \<open>k / 100\<close> with \<open>0 < k < 2 ^ 50\<close>, read as the nearest binary64 value, it is \<open>k\<close>, and for
  a whole amount \<open>w\<close> it is \<open>100 * w\<close>. It is rounded, not truncated: the product for 19.99
  is \<open>1999 - 2 ^ - 42\<close>, whose integer part is 1998, and the number sent is 1999. For
  300.00 it is 30000.
\<close>

theorem amounts_are_sent_in_paisa:
  "(order_tenant C payload = Inr t \<and>
    first_index (\<lambda>a. appt_tenant_id a = t \<and> appt_id a = cin_appointment_id body)
      (appointments d) = Some j \<and>
    int_round (times_100 (cin_amount body)) = Inr n
    \<longrightarrow> effects (create_razorpay_order C body payload new_id d) =
          [OrderCreate (order_request C t (cin_appointment_id body) n (cin_currency body))] \<and>
        py_item (order_request C t (cin_appointment_id body) n (cin_currency body)) ''amount''
          = Inr (JNum n))
   \<and>
   (token_tenant C payload = Inr t \<and>
    first_index (\<lambda>p. pay_id p = rin_payment_id rbody \<and> pay_tenant_id p = t) (payments d)
      = Some i \<and>
    pay_provider (payments d ! i) = RAZORPAY \<and>
    pay_provider_payment_id (payments d ! i) = Some pid \<and> pid \<noteq> [] \<and>
    rin_amount rbody = Some a \<and> \<not> le_zero a \<and> int_round (times_100 a) = Inr n
    \<longrightarrow> effects (razorpay_refund C rbody payload d) =
          [PaymentRefund pid (JObj [(''amount'', JNum n)])])
   \<and>
   (0 < k \<and> k < 2 ^ 50 \<longrightarrow> rupees_to_paisa (to_double (of_int k / 100)) = Inr k)
   \<and>
   (0 < w \<and> w < 90071992547409 \<longrightarrow> rupees_to_paisa (Fin (of_int w)) = Inr (w * 100))
   \<and>
   times_100 (to_double (1999 / 100)) = Fin (1999 - 1 / 2 ^ 42) \<and>
   \<lfloor>(1999::rat) - 1 / 2 ^ 42\<rfloor> = 1998 \<and>
   rupees_to_paisa (to_double (1999 / 100)) = Inr 1999
   \<and>
   rupees_to_paisa (Fin 300) = Inr 30000"
proof (intro conjI impI)
  assume "order_tenant C payload = Inr t \<and>
    first_index (\<lambda>a. appt_tenant_id a = t \<and> appt_id a = cin_appointment_id body)
      (appointments d) = Some j \<and>
    int_round (times_100 (cin_amount body)) = Inr n"
  then show "effects (create_razorpay_order C body payload new_id d) =
          [OrderCreate (order_request C t (cin_appointment_id body) n (cin_currency body))]"
    by (auto simp: create_razorpay_order_def rupees_to_paisa_def failed_def
        Let_def split: sum.splits prod.splits)
next
  show "py_item (order_request C t (cin_appointment_id body) n (cin_currency body)) ''amount''
          = Inr (JNum n)"
    by (simp add: order_request_def)
next
  assume "token_tenant C payload = Inr t \<and>
    first_index (\<lambda>p. pay_id p = rin_payment_id rbody \<and> pay_tenant_id p = t) (payments d)
      = Some i \<and>
    pay_provider (payments d ! i) = RAZORPAY \<and>
    pay_provider_payment_id (payments d ! i) = Some pid \<and> pid \<noteq> [] \<and>
    rin_amount rbody = Some a \<and> \<not> le_zero a \<and> int_round (times_100 a) = Inr n"
  then show "effects (razorpay_refund C rbody payload d) =
          [PaymentRefund pid (JObj [(''amount'', JNum n)])]"
    by (auto simp: razorpay_refund_def refund_payload_def rupees_to_paisa_def failed_def
        split: sum.splits)
next
  assume "0 < k \<and> k < 2 ^ 50"
  then show "rupees_to_paisa (to_double (of_int k / 100)) = Inr k"
    by (simp add: two_decimals_to_paisa)
next
  assume "0 < w \<and> w < 90071992547409"
  then show "rupees_to_paisa (Fin (of_int w)) = Inr (w * 100)"
    by (simp add: whole_rupees_to_paisa)
next
  show "times_100 (to_double (1999 / 100)) = Fin (1999 - 1 / 2 ^ 42)"
    by (rule double_19_99_times_100)
next
  show "\<lfloor>(1999::rat) - 1 / 2 ^ 42\<rfloor> = 1998" by (rule floor_19_99)
next
  show "rupees_to_paisa (to_double (1999 / 100)) = Inr 1999"
    using two_decimals_to_paisa [of 1999] by simp
next
  show "rupees_to_paisa (Fin 300) = Inr 30000" by (rule paisa_300)
qed


text \<open>An order and a refund of 19.99 send 1999; Scenario D's refund of 300.00 on the
  captured payment sends 30000, and the payment and the appointment end refunded; 900.50
  gives 90050 and 900.00 gives 90000.\<close>

theorem amounts_are_sent_in_paisa_witness:
  "effects (create_razorpay_order scenario_collaborators
      (scenario_order_body\<lparr>cin_amount := to_double (1999 / 100)\<rparr>) scenario_token
      (UUID 10) scenario_initial_db) =
     [OrderCreate (order_request scenario_collaborators (UUID 1) (UUID 2) 1999 ''INR'')] \<and>
   effects (razorpay_refund scenario_collaborators
      (scenario_refund_body\<lparr>rin_amount := Some (to_double (1999 / 100))\<rparr>) scenario_token
      (scenario_db scenario_captured PAID [])) =
     [PaymentRefund ''pay_1'' (JObj [(''amount'', JNum 1999)])] \<and>
   razorpay_refund scenario_collaborators scenario_refund_body scenario_token
     (scenario_db scenario_captured PAID []) =
   \<lparr>response = Inr (JObj [(''id'', JStr ''rfnd_1''), (''payment_id'', JStr ''pay_1'')]),
    committed = scenario_db (scenario_captured\<lparr>pay_status := REFUNDED\<rparr>) APPT_REFUNDED
                  [refund_event],
    effects = [PaymentRefund ''pay_1'' (JObj [(''amount'', JNum 30000)])]\<rparr> \<and>
   rupees_to_paisa (to_double (90050 / 100)) = Inr 90050 \<and>
   rupees_to_paisa (Fin 900) = Inr 90000"
proof -
  let ?amt = "to_double (1999 / 100)"
  let ?ob = "scenario_order_body\<lparr>cin_amount := ?amt\<rparr>"
  let ?rb = "scenario_refund_body\<lparr>rin_amount := Some ?amt\<rparr>"
  let ?cap = "scenario_db scenario_captured PAID []"
  have kk: "(0::int) < 1999 \<and> (1999::int) < 2 ^ 50" by simp
  have r1999: "int_round (times_100 ?amt) = Inr 1999"
    using amounts_are_sent_in_paisa
            [where k = 1999, THEN conjunct2, THEN conjunct2, THEN conjunct1, rule_format, OF kk]
    by (simp add: rupees_to_paisa_def)
  have nz: "\<not> le_zero ?amt" by (simp add: double_19_99)
  have p1: "order_tenant scenario_collaborators scenario_token = Inr (UUID 1) \<and>
      first_index (\<lambda>a. appt_tenant_id a = UUID 1 \<and> appt_id a = cin_appointment_id ?ob)
        (appointments scenario_initial_db) = Some 0 \<and>
      int_round (times_100 (cin_amount ?ob)) = Inr 1999"
    using r1999
    by (simp add: order_tenant_scenario scenario_initial_db_def scenario_appointment_def
        scenario_order_body_def)
  have p2: "token_tenant scenario_collaborators scenario_token = Inr (UUID 1) \<and>
      first_index (\<lambda>p. pay_id p = rin_payment_id ?rb \<and> pay_tenant_id p = UUID 1)
        (payments ?cap) = Some 0 \<and>
      pay_provider (payments ?cap ! 0) = RAZORPAY \<and>
      pay_provider_payment_id (payments ?cap ! 0) = Some ''pay_1'' \<and> ''pay_1'' \<noteq> [] \<and>
      rin_amount ?rb = Some ?amt \<and> \<not> le_zero ?amt \<and>
      int_round (times_100 ?amt) = Inr 1999"
    using r1999 nz
    by (simp add: token_tenant_scenario scenario_db_def scenario_captured_def
        scenario_payment_def scenario_refund_body_def)
  from amounts_are_sent_in_paisa
         [where C = scenario_collaborators and d = scenario_initial_db and new_id = "UUID 10",
          THEN conjunct1, rule_format, OF p1]
  have c1: "effects (create_razorpay_order scenario_collaborators ?ob scenario_token
                (UUID 10) scenario_initial_db) =
            [OrderCreate (order_request scenario_collaborators (UUID 1) (UUID 2) 1999 ''INR'')]"
    by (simp add: scenario_order_body_def)
  from amounts_are_sent_in_paisa
         [where C = scenario_collaborators and d = ?cap,
          THEN conjunct2, THEN conjunct1, rule_format, OF p2]
  have c2: "effects (razorpay_refund scenario_collaborators ?rb scenario_token ?cap) =
        [PaymentRefund ''pay_1'' (JObj [(''amount'', JNum 1999)])]" .
  have k2: "(0::int) < 90050 \<and> (90050::int) < 2 ^ 50" by simp
  from amounts_are_sent_in_paisa
         [where k = 90050, THEN conjunct2, THEN conjunct2, THEN conjunct1, rule_format, OF k2]
  have c4: "rupees_to_paisa (to_double (90050 / 100)) = Inr 90050" by simp
  have w2: "(0::int) < 900 \<and> (900::int) < 90071992547409" by simp
  from amounts_are_sent_in_paisa
         [where w = 900, THEN conjunct2, THEN conjunct2, THEN conjunct2, THEN conjunct1,
          rule_format, OF w2]
  have c5: "rupees_to_paisa (Fin 900) = Inr 90000" by simp
  show ?thesis
    using c1 c2 c4 c5 scenario_D [of "[]"] by simp
qed

text \<open>
  Claim C9, as stated, fails on an unrecognised status: the branch that commits tests the
  payment's status after the mapping, not the provider's status. When the provider
  reports \<^verbatim>\<open>refunded\<close>, which checkout verification does not map, and the stored status
  already is \<^verbatim>\<open>CAPTURED\<close>, the captured branch runs and commits.
\<close>

theorem unrecognised_status_on_captured_commits:
  "verify_status (JStr ''refunded'') CAPTURED = CAPTURED \<and>
   razorpay_verify refunded_at_provider scenario_verify_body scenario_token
     (scenario_db scenario_captured PAID
        [webhook_event ''payment.captured'' ''pay_1'' ''order_abc'' ''captured'']) =
   \<lparr>response = Inr CAPTURED,
    committed = scenario_db scenario_captured PAID
        [webhook_event ''payment.captured'' ''pay_1'' ''order_abc'' ''captured'',
         refunded_checkout_event],
    effects = [PaymentFetch ''pay_1'', ReceiptRendered ''%PDF'',
               EmailEnqueued ''customer@email.com'' ''%PDF'']\<rparr>"
  by (simp add: razorpay_verify_def verify_fetch_def verify_captured_def verify_status_def
      token_tenant_def scenario_token_def verify_razorpay_checkout_signature_def
      compare_digest_def is_ascii_def scenario_verify_body_def scenario_db_def
      scenario_payment_def scenario_captured_def scenario_appointment_def failed_def
      scenario_collaborators_def refunded_at_provider_def refunded_checkout_event_def
      checkout_event_def)


text \<open>
  Claim C9, amended. In checkout verification a commit is issued only on the branch where
  the payment's status after the mapping is \<^verbatim>\<open>CAPTURED\<close> (the provider's status maps to
  it, or is unrecognised while the stored status already is \<^verbatim>\<open>CAPTURED\<close>) and the
  appointment is found. For every call that reads the provider's status and where the
  status after the mapping is not \<^verbatim>\<open>CAPTURED\<close> (it maps to \<^verbatim>\<open>FAILED\<close> or \<^verbatim>\<open>AUTHORIZED\<close>,
  or is unrecognised on a payment not captured), or the appointment is not found, nothing
  is committed: the assignments to the payment and the appointment are dropped with the
  session, and the request still answers with success and the status after the mapping.
\<close>

theorem verify_commits_only_when_captured:
  assumes "token_tenant C payload = Inr t"
    and "first_index (\<lambda>p. pay_id p = vin_payment_id body \<and> pay_tenant_id p = t)
           (payments d) = Some i"
    and "pay_provider_order_id (payments d ! i) = razorpay_order_id body"
    and "verify_razorpay_checkout_signature C (razorpay_order_id body)
           (razorpay_payment_id body) (razorpay_signature body) (RAZORPAY_KEY_SECRET C)
         = Inr True"
    and "payment_fetch C (razorpay_payment_id body) = Inr rp_payment"
    and "py_get rp_payment ''status'' (JStr []) = Inr rp_status"
    and "verify_status rp_status (pay_status (payments d ! i)) \<noteq> CAPTURED \<or>
         first_index (\<lambda>a. appt_id a = pay_appointment_id (payments d ! i) \<and>
                           appt_tenant_id a = t) (appointments d) = None"
  shows "razorpay_verify C body payload d =
           \<lparr>response = Inr (verify_status rp_status (pay_status (payments d ! i))),
            committed = d,
            effects = [PaymentFetch (razorpay_payment_id body)]\<rparr>"
  using assms
  by (auto simp: razorpay_verify_def verify_fetch_def Let_def split: option.splits)


text \<open>The provider reports \<^verbatim>\<open>refunded\<close> for the created payment of Scenario A.\<close>

theorem verify_commits_only_when_captured_witness:
  "razorpay_verify refunded_at_provider scenario_verify_body scenario_token
     (scenario_db scenario_payment UNPAID []) =
   \<lparr>response = Inr CREATED, committed = scenario_db scenario_payment UNPAID [],
    effects = [PaymentFetch ''pay_1'']\<rparr>"
proof -
  let ?d = "scenario_db scenario_payment UNPAID []"
  let ?rp = "JObj [(''id'', JStr ''pay_1''), (''status'', JStr ''refunded'')]"
  have a1: "token_tenant refunded_at_provider scenario_token = Inr (UUID 1)"
    by (simp add: token_tenant_def scenario_token_def scenario_collaborators_def
        refunded_at_provider_def)
  have a2: "first_index (\<lambda>p. pay_id p = vin_payment_id scenario_verify_body \<and>
              pay_tenant_id p = UUID 1) (payments ?d) = Some 0"
    by (simp add: scenario_db_def scenario_payment_def scenario_verify_body_def)
  have a3: "pay_provider_order_id (payments ?d ! 0) = razorpay_order_id scenario_verify_body"
    by (simp add: scenario_db_def scenario_payment_def scenario_verify_body_def)
  have a4: "verify_razorpay_checkout_signature refunded_at_provider
           (razorpay_order_id scenario_verify_body) (razorpay_payment_id scenario_verify_body)
           (razorpay_signature scenario_verify_body)
           (RAZORPAY_KEY_SECRET refunded_at_provider) = Inr True"
    by (simp add: verify_razorpay_checkout_signature_def compare_digest_def is_ascii_def
        scenario_verify_body_def scenario_collaborators_def refunded_at_provider_def)
  have a5: "payment_fetch refunded_at_provider (razorpay_payment_id scenario_verify_body)
              = Inr ?rp"
    by (simp add: refunded_at_provider_def scenario_verify_body_def)
  have a6: "py_get ?rp ''status'' (JStr []) = Inr (JStr ''refunded'')" by simp
  have a7: "verify_status (JStr ''refunded'') (pay_status (payments ?d ! 0)) \<noteq> CAPTURED \<or>
        first_index (\<lambda>a. appt_id a = pay_appointment_id (payments ?d ! 0) \<and>
                           appt_tenant_id a = UUID 1) (appointments ?d) = None"
    by (simp add: verify_status_def scenario_db_def scenario_payment_def)
  show ?thesis
    using verify_commits_only_when_captured [OF a1 a2 a3 a4 a5 a6 a7]
    by (simp add: verify_status_def scenario_db_def scenario_payment_def
        scenario_verify_body_def)
qed



end
